theory Spec2Isabelle
  imports Complex_Main "HOL-Library.Multiset" "HOL-Library.Sublist"
begin

chapter \<open>The scikit-learn example corpus\<close>

text \<open>
  The repository holds documentation pages and notebooks of a machine-learning library.
  Each page carries one example script. Six scripts are present with their code:
  \<^item> \<open>plot_feature_stacker\<close> (page \<open>src/unnamed/part_000\<close>),
  \<^item> \<open>plot_compare_reduction\<close> (page
    \<open>src/0.19/_sources/auto_examples/plot_compare_reduction.rst.txt\<close>, three code blocks),
  \<^item> the OPTICS demo notebook (second document of the same file), here \<open>plot_optics\<close>,
  \<^item> \<open>plot_gpc_isoprobability\<close> and the GPC-on-iris notebook
    (\<open>src/0.18/_downloads/plot_gpc_isoprobability.ipynb\<close>), the latter here \<open>plot_gpc_iris\<close>,
  \<^item> the imputation notebook (\<open>src/unnamed/part_001\<close>), here \<open>plot_missing_values\<close>.

  The page \<open>plot_stock_market.txt\<close> includes its script by a \<open>literalinclude\<close> directive
  only; the script's code is not part of the sources and is not modelled.

  Two views of the scripts are used. Properties of what a script \<^emph>\<open>contains\<close> (imports,
  handlers, function definitions, keyword arguments) are decided on the script's syntax
  tree, transcribed statement by statement; so is where an exception goes, on a model of
  how a block of statements runs. Properties of what a script \<^emph>\<open>computes\<close> (grid
  sizes, array shapes, index arrays, the cache directory) are decided on functional
  models of the statements concerned, in which every call into the library that the
  property depends on is written out with its failure cases.
\<close>

section \<open>Syntax trees of the scripts\<close>

text \<open>
  Expressions and statements follow Python's \<open>ast\<close> node kinds. A numeric literal keeps
  its source text, a string literal its value, an operator its symbol. Comments are
  dropped. The \<open>%matplotlib inline\<close> cell of a notebook is a \<open>Magic\<close> statement.
  Besides the kinds that occur in
  the scripts, the types have the kinds the properties speak about (conditional
  expressions, lambdas, classes, \<open>if\<close>, \<open>while\<close>, \<open>with\<close>, \<open>try\<close>, \<open>raise\<close>), so that
  their absence is a fact about the scripts and not about the types.
\<close>

datatype expr =
    Name string
  | Num string
  | Str string
  | Attribute expr string
  | Subscript expr expr
  | Call expr "expr list" "(string \<times> expr) list"
  | BinOp expr string expr
  | UnaryOp string expr
  | Compare expr string expr
  | ListE "expr list"
  | TupleE "expr list"
  | DictE "(expr \<times> expr) list"
  | Slice "expr option" "expr option"
  | IfExp expr expr expr
  | Lambda "string list" expr

datatype stmt =
    Import string "string option"
  | ImportFrom string "(string \<times> string option) list"
  | Assign expr expr
  | ExprStmt expr
  | Return expr
  | Raise expr
  | Magic string
  | FunctionDef string "string list" "stmt list"
  | ClassDef string "stmt list"
  | For expr expr "stmt list"
  | While expr "stmt list"
  | IfStmt expr "stmt list" "stmt list"
  | With expr "stmt list"
  | Try "stmt list" "(string \<times> stmt list) list" "stmt list"

text \<open>Statements of \<open>plot_feature_stacker\<close>:
\<^verbatim>\<open>
  from sklearn.pipeline import Pipeline, FeatureUnion
  from sklearn.model_selection import GridSearchCV
  from sklearn.svm import SVC
  from sklearn.datasets import load_iris
  from sklearn.decomposition import PCA
  from sklearn.feature_selection import SelectKBest

  iris = load_iris()

  X, y = iris.data, iris.target

  # This dataset is way too high-dimensional. Better do PCA:
  pca = PCA(n_components=2)

  # Maybe some original features where good, too?
  selection = SelectKBest(k=1)

  # Build estimator from PCA and Univariate selection:

  combined_features = FeatureUnion([("pca", pca), ("univ_select", selection)])

  # Use combined features to transform dataset:
  X_features = combined_features.fit(X, y).transform(X)

  svm = SVC(kernel="linear")

  # Do grid search over k, n_components and C:

  pipeline = Pipeline([("features", combined_features), ("svm", svm)])
\<close>\<close>

definition plot_feature_stacker_part1 :: "stmt list" where
  "plot_feature_stacker_part1 =
     [ImportFrom ''sklearn.pipeline'' [(''Pipeline'', None), (''FeatureUnion'', None)],
      ImportFrom ''sklearn.model_selection'' [(''GridSearchCV'', None)],
      ImportFrom ''sklearn.svm'' [(''SVC'', None)],
      ImportFrom ''sklearn.datasets'' [(''load_iris'', None)],
      ImportFrom ''sklearn.decomposition'' [(''PCA'', None)],
      ImportFrom ''sklearn.feature_selection'' [(''SelectKBest'', None)],
      Assign (Name ''iris'') (Call (Name ''load_iris'') [] []),
      Assign
        (TupleE [Name ''X'', Name ''y''])
        (TupleE [Attribute (Name ''iris'') ''data'', Attribute (Name ''iris'') ''target'']),
      Assign (Name ''pca'') (Call (Name ''PCA'') [] [(''n_components'', Num ''2'')]),
      Assign (Name ''selection'') (Call (Name ''SelectKBest'') [] [(''k'', Num ''1'')]),
      Assign
        (Name ''combined_features'')
        (Call
           (Name ''FeatureUnion'')
           [ListE
              [TupleE [Str ''pca'', Name ''pca''],
               TupleE [Str ''univ_select'', Name ''selection'']]]
           []),
      Assign
        (Name ''X_features'')
        (Call
           (Attribute
              (Call
                 (Attribute (Name ''combined_features'') ''fit'')
                 [Name ''X'', Name ''y'']
                 [])
              ''transform'')
           [Name ''X'']
           []),
      Assign (Name ''svm'') (Call (Name ''SVC'') [] [(''kernel'', Str ''linear'')]),
      Assign
        (Name ''pipeline'')
        (Call
           (Name ''Pipeline'')
           [ListE
              [TupleE [Str ''features'', Name ''combined_features''],
               TupleE [Str ''svm'', Name ''svm'']]]
           [])]"

text \<open>Statements of \<open>plot_feature_stacker\<close>:
\<^verbatim>\<open>
  param_grid = dict(features__pca__n_components=[1, 2, 3],
                    features__univ_select__k=[1, 2],
                    svm__C=[0.1, 1, 10])

  grid_search = GridSearchCV(pipeline, param_grid=param_grid, verbose=10)
  grid_search.fit(X, y)
  print(grid_search.best_estimator_)
\<close>\<close>

definition plot_feature_stacker_part2 :: "stmt list" where
  "plot_feature_stacker_part2 =
     [Assign
        (Name ''param_grid'')
        (Call
           (Name ''dict'')
           []
           [(''features__pca__n_components'', ListE [Num ''1'', Num ''2'', Num ''3'']),
            (''features__univ_select__k'', ListE [Num ''1'', Num ''2'']),
            (''svm__C'', ListE [Num ''0.1'', Num ''1'', Num ''10''])]),
      Assign
        (Name ''grid_search'')
        (Call
           (Name ''GridSearchCV'')
           [Name ''pipeline'']
           [(''param_grid'', Name ''param_grid''), (''verbose'', Num ''10'')]),
      ExprStmt (Call (Attribute (Name ''grid_search'') ''fit'') [Name ''X'', Name ''y''] []),
      ExprStmt
        (Call (Name ''print'') [Attribute (Name ''grid_search'') ''best_estimator_''] [])]"

definition plot_feature_stacker :: "stmt list" where
  "plot_feature_stacker =
     concat
       [plot_feature_stacker_part1,
        plot_feature_stacker_part2]"

text \<open>Statements of \<open>plot_compare_reduction\<close>:
\<^verbatim>\<open>
  from __future__ import print_function, division

  import numpy as np
  import matplotlib.pyplot as plt
  from sklearn.datasets import load_digits
  from sklearn.model_selection import GridSearchCV
  from sklearn.pipeline import Pipeline
  from sklearn.svm import LinearSVC
  from sklearn.decomposition import PCA, NMF
  from sklearn.feature_selection import SelectKBest, chi2

  print(__doc__)

  pipe = Pipeline([
      ('reduce_dim', PCA()),
      ('classify', LinearSVC())
  ])

  N_FEATURES_OPTIONS = [2, 4, 8]
  C_OPTIONS = [1, 10, 100, 1000]
  param_grid = [
      {
          'reduce_dim': [PCA(iterated_power=7), NMF()],
          'reduce_dim__n_components': N_FEATURES_OPTIONS,
          'classify__C': C_OPTIONS
      },
      {
          'reduce_dim': [SelectKBest(chi2)],
          'reduce_dim__k': N_FEATURES_OPTIONS,
          'classify__C': C_OPTIONS
      },
  ]
\<close>\<close>

definition plot_compare_reduction_part1 :: "stmt list" where
  "plot_compare_reduction_part1 =
     [ImportFrom ''__future__'' [(''print_function'', None), (''division'', None)],
      Import ''numpy'' (Some ''np''),
      Import ''matplotlib.pyplot'' (Some ''plt''),
      ImportFrom ''sklearn.datasets'' [(''load_digits'', None)],
      ImportFrom ''sklearn.model_selection'' [(''GridSearchCV'', None)],
      ImportFrom ''sklearn.pipeline'' [(''Pipeline'', None)],
      ImportFrom ''sklearn.svm'' [(''LinearSVC'', None)],
      ImportFrom ''sklearn.decomposition'' [(''PCA'', None), (''NMF'', None)],
      ImportFrom ''sklearn.feature_selection'' [(''SelectKBest'', None), (''chi2'', None)],
      ExprStmt (Call (Name ''print'') [Name ''__doc__''] []),
      Assign
        (Name ''pipe'')
        (Call
           (Name ''Pipeline'')
           [ListE
              [TupleE [Str ''reduce_dim'', Call (Name ''PCA'') [] []],
               TupleE [Str ''classify'', Call (Name ''LinearSVC'') [] []]]]
           []),
      Assign (Name ''N_FEATURES_OPTIONS'') (ListE [Num ''2'', Num ''4'', Num ''8'']),
      Assign (Name ''C_OPTIONS'') (ListE [Num ''1'', Num ''10'', Num ''100'', Num ''1000'']),
      Assign
        (Name ''param_grid'')
        (ListE
           [DictE
              [(Str ''reduce_dim'',
                ListE
                  [Call (Name ''PCA'') [] [(''iterated_power'', Num ''7'')],
                   Call (Name ''NMF'') [] []]),
               (Str ''reduce_dim__n_components'', Name ''N_FEATURES_OPTIONS''),
               (Str ''classify__C'', Name ''C_OPTIONS'')],
            DictE
              [(Str ''reduce_dim'', ListE [Call (Name ''SelectKBest'') [Name ''chi2''] []]),
               (Str ''reduce_dim__k'', Name ''N_FEATURES_OPTIONS''),
               (Str ''classify__C'', Name ''C_OPTIONS'')]])]"

text \<open>Statements of \<open>plot_compare_reduction\<close>:
\<^verbatim>\<open>
  reducer_labels = ['PCA', 'NMF', 'KBest(chi2)']

  grid = GridSearchCV(pipe, cv=3, n_jobs=1, param_grid=param_grid)
  digits = load_digits()
  grid.fit(digits.data, digits.target)

  mean_scores = np.array(grid.cv_results_['mean_test_score'])
  # scores are in the order of param_grid iteration, which is alphabetical
  mean_scores = mean_scores.reshape(len(C_OPTIONS), -1, len(N_FEATURES_OPTIONS))
  # select score for best C
  mean_scores = mean_scores.max(axis=0)
  bar_offsets = (np.arange(len(N_FEATURES_OPTIONS)) *
                 (len(reducer_labels) + 1) + .5)

  plt.figure()
  COLORS = 'bgrcmyk'
  for i, (label, reducer_scores) in enumerate(zip(reducer_labels, mean_scores)):
      plt.bar(bar_offsets + i, reducer_scores, label=label, color=COLORS[i])

  plt.title("Comparing feature reduction techniques")
  plt.xlabel('Reduced number of features')
  plt.xticks(bar_offsets + len(reducer_labels) / 2, N_FEATURES_OPTIONS)
\<close>\<close>

definition plot_compare_reduction_part2 :: "stmt list" where
  "plot_compare_reduction_part2 =
     [Assign
        (Name ''reducer_labels'')
        (ListE [Str ''PCA'', Str ''NMF'', Str ''KBest(chi2)'']),
      Assign
        (Name ''grid'')
        (Call
           (Name ''GridSearchCV'')
           [Name ''pipe'']
           [(''cv'', Num ''3''),
            (''n_jobs'', Num ''1''),
            (''param_grid'', Name ''param_grid'')]),
      Assign (Name ''digits'') (Call (Name ''load_digits'') [] []),
      ExprStmt
        (Call
           (Attribute (Name ''grid'') ''fit'')
           [Attribute (Name ''digits'') ''data'', Attribute (Name ''digits'') ''target'']
           []),
      Assign
        (Name ''mean_scores'')
        (Call
           (Attribute (Name ''np'') ''array'')
           [Subscript (Attribute (Name ''grid'') ''cv_results_'') (Str ''mean_test_score'')]
           []),
      Assign
        (Name ''mean_scores'')
        (Call
           (Attribute (Name ''mean_scores'') ''reshape'')
           [Call (Name ''len'') [Name ''C_OPTIONS''] [],
            UnaryOp ''-'' (Num ''1''),
            Call (Name ''len'') [Name ''N_FEATURES_OPTIONS''] []]
           []),
      Assign
        (Name ''mean_scores'')
        (Call (Attribute (Name ''mean_scores'') ''max'') [] [(''axis'', Num ''0'')]),
      Assign
        (Name ''bar_offsets'')
        (BinOp
           (BinOp
              (Call
                 (Attribute (Name ''np'') ''arange'')
                 [Call (Name ''len'') [Name ''N_FEATURES_OPTIONS''] []]
                 [])
              ''*''
              (BinOp (Call (Name ''len'') [Name ''reducer_labels''] []) ''+'' (Num ''1'')))
           ''+''
           (Num ''.5'')),
      ExprStmt (Call (Attribute (Name ''plt'') ''figure'') [] []),
      Assign (Name ''COLORS'') (Str ''bgrcmyk''),
      For
        (TupleE [Name ''i'', TupleE [Name ''label'', Name ''reducer_scores'']])
        (Call
           (Name ''enumerate'')
           [Call (Name ''zip'') [Name ''reducer_labels'', Name ''mean_scores''] []]
           [])
        [ExprStmt
           (Call
              (Attribute (Name ''plt'') ''bar'')
              [BinOp (Name ''bar_offsets'') ''+'' (Name ''i''), Name ''reducer_scores'']
              [(''label'', Name ''label''),
               (''color'', Subscript (Name ''COLORS'') (Name ''i''))])],
      ExprStmt
        (Call
           (Attribute (Name ''plt'') ''title'')
           [Str ''Comparing feature reduction techniques'']
           []),
      ExprStmt
        (Call (Attribute (Name ''plt'') ''xlabel'') [Str ''Reduced number of features''] []),
      ExprStmt
        (Call
           (Attribute (Name ''plt'') ''xticks'')
           [BinOp
              (Name ''bar_offsets'')
              ''+''
              (BinOp (Call (Name ''len'') [Name ''reducer_labels''] []) ''/'' (Num ''2'')),
            Name ''N_FEATURES_OPTIONS'']
           [])]"

text \<open>Statements of \<open>plot_compare_reduction\<close>:
\<^verbatim>\<open>
  plt.ylabel('Digit classification accuracy')
  plt.ylim((0, 1))
  plt.legend(loc='upper left')
\<close>\<close>

definition plot_compare_reduction_part3 :: "stmt list" where
  "plot_compare_reduction_part3 =
     [ExprStmt
        (Call
           (Attribute (Name ''plt'') ''ylabel'')
           [Str ''Digit classification accuracy'']
           []),
      ExprStmt (Call (Attribute (Name ''plt'') ''ylim'') [TupleE [Num ''0'', Num ''1'']] []),
      ExprStmt
        (Call (Attribute (Name ''plt'') ''legend'') [] [(''loc'', Str ''upper left'')])]"

text \<open>Statements of \<open>plot_compare_reduction\<close>:
\<^verbatim>\<open>
  from tempfile import mkdtemp
  from shutil import rmtree
  from sklearn.externals.joblib import Memory

  # Create a temporary folder to store the transformers of the pipeline
  cachedir = mkdtemp()
  memory = Memory(cachedir=cachedir, verbose=10)
  cached_pipe = Pipeline([('reduce_dim', PCA()),
                          ('classify', LinearSVC())],
                         memory=memory)

  # This time, a cached pipeline will be used within the grid search
  grid = GridSearchCV(cached_pipe, cv=3, n_jobs=1, param_grid=param_grid)
  digits = load_digits()
  grid.fit(digits.data, digits.target)

  # Delete the temporary cache before exiting
  rmtree(cachedir)
\<close>\<close>

definition plot_compare_reduction_part4 :: "stmt list" where
  "plot_compare_reduction_part4 =
     [ImportFrom ''tempfile'' [(''mkdtemp'', None)],
      ImportFrom ''shutil'' [(''rmtree'', None)],
      ImportFrom ''sklearn.externals.joblib'' [(''Memory'', None)],
      Assign (Name ''cachedir'') (Call (Name ''mkdtemp'') [] []),
      Assign
        (Name ''memory'')
        (Call
           (Name ''Memory'')
           []
           [(''cachedir'', Name ''cachedir''), (''verbose'', Num ''10'')]),
      Assign
        (Name ''cached_pipe'')
        (Call
           (Name ''Pipeline'')
           [ListE
              [TupleE [Str ''reduce_dim'', Call (Name ''PCA'') [] []],
               TupleE [Str ''classify'', Call (Name ''LinearSVC'') [] []]]]
           [(''memory'', Name ''memory'')]),
      Assign
        (Name ''grid'')
        (Call
           (Name ''GridSearchCV'')
           [Name ''cached_pipe'']
           [(''cv'', Num ''3''),
            (''n_jobs'', Num ''1''),
            (''param_grid'', Name ''param_grid'')]),
      Assign (Name ''digits'') (Call (Name ''load_digits'') [] []),
      ExprStmt
        (Call
           (Attribute (Name ''grid'') ''fit'')
           [Attribute (Name ''digits'') ''data'', Attribute (Name ''digits'') ''target'']
           []),
      ExprStmt (Call (Name ''rmtree'') [Name ''cachedir''] [])]"

text \<open>Statements of \<open>plot_compare_reduction\<close>:
\<^verbatim>\<open>
  plt.show()
\<close>\<close>

definition plot_compare_reduction_part5 :: "stmt list" where
  "plot_compare_reduction_part5 =
     [ExprStmt (Call (Attribute (Name ''plt'') ''show'') [] [])]"

definition plot_compare_reduction :: "stmt list" where
  "plot_compare_reduction =
     concat
       [plot_compare_reduction_part1,
        plot_compare_reduction_part2,
        plot_compare_reduction_part3,
        plot_compare_reduction_part4,
        plot_compare_reduction_part5]"

text \<open>Notebook cell of \<open>plot_optics\<close>:
\<^verbatim>\<open>%matplotlib inline\<close>\<close>

definition plot_optics_magic :: "stmt list" where
  "plot_optics_magic = [Magic ''matplotlib inline'']"

text \<open>Statements of \<open>plot_optics\<close>:
\<^verbatim>\<open>
  from sklearn.cluster import OPTICS
  import matplotlib.gridspec as gridspec


  import numpy as np

  import matplotlib.pyplot as plt

  # Generate sample data

  np.random.seed(0)
  n_points_per_cluster = 250

  C1 = [-5, -2] + .8 * np.random.randn(n_points_per_cluster, 2)
  C2 = [4, -1] + .1 * np.random.randn(n_points_per_cluster, 2)
  C3 = [1, -2] + .2 * np.random.randn(n_points_per_cluster, 2)
  C4 = [-2, 3] + .3 * np.random.randn(n_points_per_cluster, 2)
  C5 = [3, -2] + 1.6 * np.random.randn(n_points_per_cluster, 2)
  C6 = [5, 6] + 2 * np.random.randn(n_points_per_cluster, 2)
  X = np.vstack((C1, C2, C3, C4, C5, C6))

  clust = OPTICS(min_samples=9, rejection_ratio=0.5)
\<close>\<close>

definition plot_optics_part2 :: "stmt list" where
  "plot_optics_part2 =
     [ImportFrom ''sklearn.cluster'' [(''OPTICS'', None)],
      Import ''matplotlib.gridspec'' (Some ''gridspec''),
      Import ''numpy'' (Some ''np''),
      Import ''matplotlib.pyplot'' (Some ''plt''),
      ExprStmt
        (Call (Attribute (Attribute (Name ''np'') ''random'') ''seed'') [Num ''0''] []),
      Assign (Name ''n_points_per_cluster'') (Num ''250''),
      Assign
        (Name ''C1'')
        (BinOp
           (ListE [UnaryOp ''-'' (Num ''5''), UnaryOp ''-'' (Num ''2'')])
           ''+''
           (BinOp
              (Num ''.8'')
              ''*''
              (Call
                 (Attribute (Attribute (Name ''np'') ''random'') ''randn'')
                 [Name ''n_points_per_cluster'', Num ''2'']
                 []))),
      Assign
        (Name ''C2'')
        (BinOp
           (ListE [Num ''4'', UnaryOp ''-'' (Num ''1'')])
           ''+''
           (BinOp
              (Num ''.1'')
              ''*''
              (Call
                 (Attribute (Attribute (Name ''np'') ''random'') ''randn'')
                 [Name ''n_points_per_cluster'', Num ''2'']
                 []))),
      Assign
        (Name ''C3'')
        (BinOp
           (ListE [Num ''1'', UnaryOp ''-'' (Num ''2'')])
           ''+''
           (BinOp
              (Num ''.2'')
              ''*''
              (Call
                 (Attribute (Attribute (Name ''np'') ''random'') ''randn'')
                 [Name ''n_points_per_cluster'', Num ''2'']
                 []))),
      Assign
        (Name ''C4'')
        (BinOp
           (ListE [UnaryOp ''-'' (Num ''2''), Num ''3''])
           ''+''
           (BinOp
              (Num ''.3'')
              ''*''
              (Call
                 (Attribute (Attribute (Name ''np'') ''random'') ''randn'')
                 [Name ''n_points_per_cluster'', Num ''2'']
                 []))),
      Assign
        (Name ''C5'')
        (BinOp
           (ListE [Num ''3'', UnaryOp ''-'' (Num ''2'')])
           ''+''
           (BinOp
              (Num ''1.6'')
              ''*''
              (Call
                 (Attribute (Attribute (Name ''np'') ''random'') ''randn'')
                 [Name ''n_points_per_cluster'', Num ''2'']
                 []))),
      Assign
        (Name ''C6'')
        (BinOp
           (ListE [Num ''5'', Num ''6''])
           ''+''
           (BinOp
              (Num ''2'')
              ''*''
              (Call
                 (Attribute (Attribute (Name ''np'') ''random'') ''randn'')
                 [Name ''n_points_per_cluster'', Num ''2'']
                 []))),
      Assign
        (Name ''X'')
        (Call
           (Attribute (Name ''np'') ''vstack'')
           [TupleE
              [Name ''C1'', Name ''C2'', Name ''C3'', Name ''C4'', Name ''C5'', Name ''C6'']]
           []),
      Assign
        (Name ''clust'')
        (Call
           (Name ''OPTICS'')
           []
           [(''min_samples'', Num ''9''), (''rejection_ratio'', Num ''0.5'')])]"

text \<open>Statements of \<open>plot_optics\<close>:
\<^verbatim>\<open>
  clust.fit(X)

  _, labels_025 = clust.extract_dbscan(0.25)
  _, labels_075 = clust.extract_dbscan(0.75)

  space = np.arange(len(X))
  reachability = clust.reachability_[clust.ordering_]
  labels = clust.labels_[clust.ordering_]

  plt.figure(figsize=(10, 7))
  G = gridspec.GridSpec(2, 3)
  ax1 = plt.subplot(G[0, :])
  ax2 = plt.subplot(G[1, 0])
  ax3 = plt.subplot(G[1, 1])
  ax4 = plt.subplot(G[1, 2])

  # Reachability plot
  color = ['g.', 'r.', 'b.', 'y.', 'c.']
  for k, c in zip(range(0, 5), color):
      Xk = space[labels == k]
      Rk = reachability[labels == k]
      ax1.plot(Xk, Rk, c, alpha=0.3)
\<close>\<close>

definition plot_optics_part3 :: "stmt list" where
  "plot_optics_part3 =
     [ExprStmt (Call (Attribute (Name ''clust'') ''fit'') [Name ''X''] []),
      Assign
        (TupleE [Name ''_'', Name ''labels_025''])
        (Call (Attribute (Name ''clust'') ''extract_dbscan'') [Num ''0.25''] []),
      Assign
        (TupleE [Name ''_'', Name ''labels_075''])
        (Call (Attribute (Name ''clust'') ''extract_dbscan'') [Num ''0.75''] []),
      Assign
        (Name ''space'')
        (Call (Attribute (Name ''np'') ''arange'') [Call (Name ''len'') [Name ''X''] []] []),
      Assign
        (Name ''reachability'')
        (Subscript
           (Attribute (Name ''clust'') ''reachability_'')
           (Attribute (Name ''clust'') ''ordering_'')),
      Assign
        (Name ''labels'')
        (Subscript
           (Attribute (Name ''clust'') ''labels_'')
           (Attribute (Name ''clust'') ''ordering_'')),
      ExprStmt
        (Call
           (Attribute (Name ''plt'') ''figure'')
           []
           [(''figsize'', TupleE [Num ''10'', Num ''7''])]),
      Assign
        (Name ''G'')
        (Call (Attribute (Name ''gridspec'') ''GridSpec'') [Num ''2'', Num ''3''] []),
      Assign
        (Name ''ax1'')
        (Call
           (Attribute (Name ''plt'') ''subplot'')
           [Subscript (Name ''G'') (TupleE [Num ''0'', Slice None None])]
           []),
      Assign
        (Name ''ax2'')
        (Call
           (Attribute (Name ''plt'') ''subplot'')
           [Subscript (Name ''G'') (TupleE [Num ''1'', Num ''0''])]
           []),
      Assign
        (Name ''ax3'')
        (Call
           (Attribute (Name ''plt'') ''subplot'')
           [Subscript (Name ''G'') (TupleE [Num ''1'', Num ''1''])]
           []),
      Assign
        (Name ''ax4'')
        (Call
           (Attribute (Name ''plt'') ''subplot'')
           [Subscript (Name ''G'') (TupleE [Num ''1'', Num ''2''])]
           []),
      Assign
        (Name ''color'')
        (ListE [Str ''g.'', Str ''r.'', Str ''b.'', Str ''y.'', Str ''c.'']),
      For
        (TupleE [Name ''k'', Name ''c''])
        (Call
           (Name ''zip'')
           [Call (Name ''range'') [Num ''0'', Num ''5''] [], Name ''color'']
           [])
        [Assign
           (Name ''Xk'')
           (Subscript (Name ''space'') (Compare (Name ''labels'') ''=='' (Name ''k''))),
         Assign
           (Name ''Rk'')
           (Subscript
              (Name ''reachability'')
              (Compare (Name ''labels'') ''=='' (Name ''k''))),
         ExprStmt
           (Call
              (Attribute (Name ''ax1'') ''plot'')
              [Name ''Xk'', Name ''Rk'', Name ''c'']
              [(''alpha'', Num ''0.3'')])]]"

text \<open>Statements of \<open>plot_optics\<close>:
\<^verbatim>\<open>
  ax1.plot(space[labels == -1], reachability[labels == -1], 'k.', alpha=0.3)
  ax1.plot(space, np.full_like(space, 0.75), 'k-', alpha=0.5)
  ax1.plot(space, np.full_like(space, 0.25), 'k-.', alpha=0.5)
  ax1.set_ylabel('Reachability (epsilon distance)')
  ax1.set_title('Reachability Plot')

  # OPTICS
  color = ['g.', 'r.', 'b.', 'y.', 'c.']
  for k, c in zip(range(0, 5), color):
      Xk = X[clust.labels_ == k]
      ax2.plot(Xk[:, 0], Xk[:, 1], c, alpha=0.3)
  ax2.plot(X[clust.labels_ == -1, 0], X[clust.labels_ == -1, 1], 'k+', alpha=0.1)
  ax2.set_title('Automatic Clustering\nOPTICS')

  # DBSCAN at 0.25
  color = ['g', 'greenyellow', 'olive', 'r', 'b', 'c']
  for k, c in zip(range(0, 6), color):
      Xk = X[labels_025 == k]
      ax3.plot(Xk[:, 0], Xk[:, 1], c, alpha=0.3, marker='.')
  ax3.plot(X[labels_025 == -1, 0], X[labels_025 == -1, 1], 'k+', alpha=0.1)
  ax3.set_title('Clustering at 0.25 epsilon cut\nDBSCAN')

  # DBSCAN at 0.75
  color = ['g.', 'm.', 'y.', 'c.']
\<close>\<close>

definition plot_optics_part4 :: "stmt list" where
  "plot_optics_part4 =
     [ExprStmt
        (Call
           (Attribute (Name ''ax1'') ''plot'')
           [Subscript
              (Name ''space'')
              (Compare (Name ''labels'') ''=='' (UnaryOp ''-'' (Num ''1''))),
            Subscript
              (Name ''reachability'')
              (Compare (Name ''labels'') ''=='' (UnaryOp ''-'' (Num ''1''))),
            Str ''k.'']
           [(''alpha'', Num ''0.3'')]),
      ExprStmt
        (Call
           (Attribute (Name ''ax1'') ''plot'')
           [Name ''space'',
            Call (Attribute (Name ''np'') ''full_like'') [Name ''space'', Num ''0.75''] [],
            Str ''k-'']
           [(''alpha'', Num ''0.5'')]),
      ExprStmt
        (Call
           (Attribute (Name ''ax1'') ''plot'')
           [Name ''space'',
            Call (Attribute (Name ''np'') ''full_like'') [Name ''space'', Num ''0.25''] [],
            Str ''k-.'']
           [(''alpha'', Num ''0.5'')]),
      ExprStmt
        (Call
           (Attribute (Name ''ax1'') ''set_ylabel'')
           [Str ''Reachability (epsilon distance)'']
           []),
      ExprStmt
        (Call (Attribute (Name ''ax1'') ''set_title'') [Str ''Reachability Plot''] []),
      Assign
        (Name ''color'')
        (ListE [Str ''g.'', Str ''r.'', Str ''b.'', Str ''y.'', Str ''c.'']),
      For
        (TupleE [Name ''k'', Name ''c''])
        (Call
           (Name ''zip'')
           [Call (Name ''range'') [Num ''0'', Num ''5''] [], Name ''color'']
           [])
        [Assign
           (Name ''Xk'')
           (Subscript
              (Name ''X'')
              (Compare (Attribute (Name ''clust'') ''labels_'') ''=='' (Name ''k''))),
         ExprStmt
           (Call
              (Attribute (Name ''ax2'') ''plot'')
              [Subscript (Name ''Xk'') (TupleE [Slice None None, Num ''0'']),
               Subscript (Name ''Xk'') (TupleE [Slice None None, Num ''1'']),
               Name ''c'']
              [(''alpha'', Num ''0.3'')])],
      ExprStmt
        (Call
           (Attribute (Name ''ax2'') ''plot'')
           [Subscript
              (Name ''X'')
              (TupleE
                 [Compare
                    (Attribute (Name ''clust'') ''labels_'')
                    ''==''
                    (UnaryOp ''-'' (Num ''1'')),
                  Num ''0'']),
            Subscript
              (Name ''X'')
              (TupleE
                 [Compare
                    (Attribute (Name ''clust'') ''labels_'')
                    ''==''
                    (UnaryOp ''-'' (Num ''1'')),
                  Num ''1'']),
            Str ''k+'']
           [(''alpha'', Num ''0.1'')]),
      ExprStmt
        (Call
           (Attribute (Name ''ax2'') ''set_title'')
           [Str (''Automatic Clustering'' @ [CHR 0x0A] @ ''OPTICS'')]
           []),
      Assign
        (Name ''color'')
        (ListE
           [Str ''g'', Str ''greenyellow'', Str ''olive'', Str ''r'', Str ''b'', Str ''c'']),
      For
        (TupleE [Name ''k'', Name ''c''])
        (Call
           (Name ''zip'')
           [Call (Name ''range'') [Num ''0'', Num ''6''] [], Name ''color'']
           [])
        [Assign
           (Name ''Xk'')
           (Subscript (Name ''X'') (Compare (Name ''labels_025'') ''=='' (Name ''k''))),
         ExprStmt
           (Call
              (Attribute (Name ''ax3'') ''plot'')
              [Subscript (Name ''Xk'') (TupleE [Slice None None, Num ''0'']),
               Subscript (Name ''Xk'') (TupleE [Slice None None, Num ''1'']),
               Name ''c'']
              [(''alpha'', Num ''0.3''), (''marker'', Str ''.'')])],
      ExprStmt
        (Call
           (Attribute (Name ''ax3'') ''plot'')
           [Subscript
              (Name ''X'')
              (TupleE
                 [Compare (Name ''labels_025'') ''=='' (UnaryOp ''-'' (Num ''1'')),
                  Num ''0'']),
            Subscript
              (Name ''X'')
              (TupleE
                 [Compare (Name ''labels_025'') ''=='' (UnaryOp ''-'' (Num ''1'')),
                  Num ''1'']),
            Str ''k+'']
           [(''alpha'', Num ''0.1'')]),
      ExprStmt
        (Call
           (Attribute (Name ''ax3'') ''set_title'')
           [Str (''Clustering at 0.25 epsilon cut'' @ [CHR 0x0A] @ ''DBSCAN'')]
           []),
      Assign (Name ''color'') (ListE [Str ''g.'', Str ''m.'', Str ''y.'', Str ''c.''])]"

text \<open>Statements of \<open>plot_optics\<close>:
\<^verbatim>\<open>
  for k, c in zip(range(0, 4), color):
      Xk = X[labels_075 == k]
      ax4.plot(Xk[:, 0], Xk[:, 1], c, alpha=0.3)
  ax4.plot(X[labels_075 == -1, 0], X[labels_075 == -1, 1], 'k+', alpha=0.1)
  ax4.set_title('Clustering at 0.75 epsilon cut\nDBSCAN')

  plt.tight_layout()
  plt.show()
\<close>\<close>

definition plot_optics_part5 :: "stmt list" where
  "plot_optics_part5 =
     [For
        (TupleE [Name ''k'', Name ''c''])
        (Call
           (Name ''zip'')
           [Call (Name ''range'') [Num ''0'', Num ''4''] [], Name ''color'']
           [])
        [Assign
           (Name ''Xk'')
           (Subscript (Name ''X'') (Compare (Name ''labels_075'') ''=='' (Name ''k''))),
         ExprStmt
           (Call
              (Attribute (Name ''ax4'') ''plot'')
              [Subscript (Name ''Xk'') (TupleE [Slice None None, Num ''0'']),
               Subscript (Name ''Xk'') (TupleE [Slice None None, Num ''1'']),
               Name ''c'']
              [(''alpha'', Num ''0.3'')])],
      ExprStmt
        (Call
           (Attribute (Name ''ax4'') ''plot'')
           [Subscript
              (Name ''X'')
              (TupleE
                 [Compare (Name ''labels_075'') ''=='' (UnaryOp ''-'' (Num ''1'')),
                  Num ''0'']),
            Subscript
              (Name ''X'')
              (TupleE
                 [Compare (Name ''labels_075'') ''=='' (UnaryOp ''-'' (Num ''1'')),
                  Num ''1'']),
            Str ''k+'']
           [(''alpha'', Num ''0.1'')]),
      ExprStmt
        (Call
           (Attribute (Name ''ax4'') ''set_title'')
           [Str (''Clustering at 0.75 epsilon cut'' @ [CHR 0x0A] @ ''DBSCAN'')]
           []),
      ExprStmt (Call (Attribute (Name ''plt'') ''tight_layout'') [] []),
      ExprStmt (Call (Attribute (Name ''plt'') ''show'') [] [])]"

definition plot_optics :: "stmt list" where
  "plot_optics =
     concat
       [plot_optics_magic,
        plot_optics_part2,
        plot_optics_part3,
        plot_optics_part4,
        plot_optics_part5]"

text \<open>Notebook cell of \<open>plot_gpc_isoprobability\<close>:
\<^verbatim>\<open>%matplotlib inline\<close>\<close>

definition plot_gpc_isoprobability_magic :: "stmt list" where
  "plot_gpc_isoprobability_magic = [Magic ''matplotlib inline'']"

text \<open>Statements of \<open>plot_gpc_isoprobability\<close>:
\<^verbatim>\<open>
  print(__doc__)

  # Author: Vincent Dubourg <vincent.dubourg@gmail.com>
  # Adapted to GaussianProcessClassifier:
  #         Jan Hendrik Metzen <jhm@informatik.uni-bremen.de>
  # License: BSD 3 clause

  import numpy as np

  from matplotlib import pyplot as plt
  from matplotlib import cm

  from sklearn.gaussian_process import GaussianProcessClassifier
  from sklearn.gaussian_process.kernels import DotProduct, ConstantKernel as C

  # A few constants
  lim = 8
\<close>\<close>

definition plot_gpc_isoprobability_part2 :: "stmt list" where
  "plot_gpc_isoprobability_part2 =
     [ExprStmt (Call (Name ''print'') [Name ''__doc__''] []),
      Import ''numpy'' (Some ''np''),
      ImportFrom ''matplotlib'' [(''pyplot'', Some ''plt'')],
      ImportFrom ''matplotlib'' [(''cm'', None)],
      ImportFrom ''sklearn.gaussian_process'' [(''GaussianProcessClassifier'', None)],
      ImportFrom
        ''sklearn.gaussian_process.kernels''
        [(''DotProduct'', None), (''ConstantKernel'', Some ''C'')],
      Assign (Name ''lim'') (Num ''8'')]"

text \<open>Function \<open>g\<close> of \<open>plot_gpc_isoprobability\<close>:
\<^verbatim>\<open>
  def g(x):
      """The function to predict (classification will then consist in predicting
      whether g(x) <= 0 or not)"""
      return 5. - x[:, 1] - .5 * x[:, 0] ** 2.
\<close>\<close>

definition g_body :: "stmt list" where
  "g_body =
     [ExprStmt
        (Str
           (''The function to predict (classification will then consist in predicting'' @ [CHR 0x0A] @ ''    whether g(x) <= 0 or not)'')),
      Return
        (BinOp
           (BinOp
              (Num ''5.'')
              ''-''
              (Subscript (Name ''x'') (TupleE [Slice None None, Num ''1''])))
           ''-''
           (BinOp
              (Num ''.5'')
              ''*''
              (BinOp
                 (Subscript (Name ''x'') (TupleE [Slice None None, Num ''0'']))
                 ''**''
                 (Num ''2.''))))]"

definition plot_gpc_isoprobability_function_g :: "stmt list" where
  "plot_gpc_isoprobability_function_g =
     [FunctionDef ''g'' [''x''] g_body]"

text \<open>Statements of \<open>plot_gpc_isoprobability\<close>:
\<^verbatim>\<open>
  X = np.array([[-4.61611719, -6.00099547],
                [4.10469096, 5.32782448],
                [0.00000000, -0.50000000],
                [-6.17289014, -4.6984743],
                [1.3109306, -6.93271427],
                [-5.03823144, 3.10584743],
                [-2.87600388, 6.74310541],
                [5.21301203, 4.26386883]])

  # Observations
  y = np.array(g(X) > 0, dtype=int)

  # Instanciate and fit Gaussian Process Model
  kernel = C(0.1, (1e-5, np.inf)) * DotProduct(sigma_0=0.1) ** 2
  gp = GaussianProcessClassifier(kernel=kernel)
  gp.fit(X, y)
  print("Learned kernel: %s " % gp.kernel_)

  # Evaluate real function and the predicted probability
  res = 50
  x1, x2 = np.meshgrid(np.linspace(- lim, lim, res),
                       np.linspace(- lim, lim, res))
  xx = np.vstack([x1.reshape(x1.size), x2.reshape(x2.size)]).T

  y_true = g(xx)
  y_prob = gp.predict_proba(xx)[:, 1]
  y_true = y_true.reshape((res, res))
  y_prob = y_prob.reshape((res, res))

  # Plot the probabilistic classification iso-values
  fig = plt.figure(1)
\<close>\<close>

definition plot_gpc_isoprobability_part4 :: "stmt list" where
  "plot_gpc_isoprobability_part4 =
     [Assign
        (Name ''X'')
        (Call
           (Attribute (Name ''np'') ''array'')
           [ListE
              [ListE
                 [UnaryOp ''-'' (Num ''4.61611719''), UnaryOp ''-'' (Num ''6.00099547'')],
               ListE [Num ''4.10469096'', Num ''5.32782448''],
               ListE [Num ''0.00000000'', UnaryOp ''-'' (Num ''0.50000000'')],
               ListE [UnaryOp ''-'' (Num ''6.17289014''), UnaryOp ''-'' (Num ''4.6984743'')],
               ListE [Num ''1.3109306'', UnaryOp ''-'' (Num ''6.93271427'')],
               ListE [UnaryOp ''-'' (Num ''5.03823144''), Num ''3.10584743''],
               ListE [UnaryOp ''-'' (Num ''2.87600388''), Num ''6.74310541''],
               ListE [Num ''5.21301203'', Num ''4.26386883'']]]
           []),
      Assign
        (Name ''y'')
        (Call
           (Attribute (Name ''np'') ''array'')
           [Compare (Call (Name ''g'') [Name ''X''] []) ''>'' (Num ''0'')]
           [(''dtype'', Name ''int'')]),
      Assign
        (Name ''kernel'')
        (BinOp
           (Call
              (Name ''C'')
              [Num ''0.1'', TupleE [Num ''1e-5'', Attribute (Name ''np'') ''inf'']]
              [])
           ''*''
           (BinOp
              (Call (Name ''DotProduct'') [] [(''sigma_0'', Num ''0.1'')])
              ''**''
              (Num ''2''))),
      Assign
        (Name ''gp'')
        (Call (Name ''GaussianProcessClassifier'') [] [(''kernel'', Name ''kernel'')]),
      ExprStmt (Call (Attribute (Name ''gp'') ''fit'') [Name ''X'', Name ''y''] []),
      ExprStmt
        (Call
           (Name ''print'')
           [BinOp (Str ''Learned kernel: %s '') ''%'' (Attribute (Name ''gp'') ''kernel_'')]
           []),
      Assign (Name ''res'') (Num ''50''),
      Assign
        (TupleE [Name ''x1'', Name ''x2''])
        (Call
           (Attribute (Name ''np'') ''meshgrid'')
           [Call
              (Attribute (Name ''np'') ''linspace'')
              [UnaryOp ''-'' (Name ''lim''), Name ''lim'', Name ''res'']
              [],
            Call
              (Attribute (Name ''np'') ''linspace'')
              [UnaryOp ''-'' (Name ''lim''), Name ''lim'', Name ''res'']
              []]
           []),
      Assign
        (Name ''xx'')
        (Attribute
           (Call
              (Attribute (Name ''np'') ''vstack'')
              [ListE
                 [Call
                    (Attribute (Name ''x1'') ''reshape'')
                    [Attribute (Name ''x1'') ''size'']
                    [],
                  Call
                    (Attribute (Name ''x2'') ''reshape'')
                    [Attribute (Name ''x2'') ''size'']
                    []]]
              [])
           ''T''),
      Assign (Name ''y_true'') (Call (Name ''g'') [Name ''xx''] []),
      Assign
        (Name ''y_prob'')
        (Subscript
           (Call (Attribute (Name ''gp'') ''predict_proba'') [Name ''xx''] [])
           (TupleE [Slice None None, Num ''1''])),
      Assign
        (Name ''y_true'')
        (Call
           (Attribute (Name ''y_true'') ''reshape'')
           [TupleE [Name ''res'', Name ''res'']]
           []),
      Assign
        (Name ''y_prob'')
        (Call
           (Attribute (Name ''y_prob'') ''reshape'')
           [TupleE [Name ''res'', Name ''res'']]
           []),
      Assign (Name ''fig'') (Call (Attribute (Name ''plt'') ''figure'') [Num ''1''] [])]"

text \<open>Statements of \<open>plot_gpc_isoprobability\<close>:
\<^verbatim>\<open>
  ax = fig.gca()
  ax.axes.set_aspect('equal')
  plt.xticks([])
  plt.yticks([])
  ax.set_xticklabels([])
  ax.set_yticklabels([])
  plt.xlabel('$x_1$')
  plt.ylabel('$x_2$')

  cax = plt.imshow(y_prob, cmap=cm.gray_r, alpha=0.8,
                   extent=(-lim, lim, -lim, lim))
  norm = plt.matplotlib.colors.Normalize(vmin=0., vmax=0.9)
  cb = plt.colorbar(cax, ticks=[0., 0.2, 0.4, 0.6, 0.8, 1.], norm=norm)
  cb.set_label('${\\rm \mathbb{P}}\left[\widehat{G}(\mathbf{x}) \leq 0\\right]$')
  plt.clim(0, 1)

  plt.plot(X[y <= 0, 0], X[y <= 0, 1], 'r.', markersize=12)
\<close>\<close>

definition plot_gpc_isoprobability_part5 :: "stmt list" where
  "plot_gpc_isoprobability_part5 =
     [Assign (Name ''ax'') (Call (Attribute (Name ''fig'') ''gca'') [] []),
      ExprStmt
        (Call
           (Attribute (Attribute (Name ''ax'') ''axes'') ''set_aspect'')
           [Str ''equal'']
           []),
      ExprStmt (Call (Attribute (Name ''plt'') ''xticks'') [ListE []] []),
      ExprStmt (Call (Attribute (Name ''plt'') ''yticks'') [ListE []] []),
      ExprStmt (Call (Attribute (Name ''ax'') ''set_xticklabels'') [ListE []] []),
      ExprStmt (Call (Attribute (Name ''ax'') ''set_yticklabels'') [ListE []] []),
      ExprStmt (Call (Attribute (Name ''plt'') ''xlabel'') [Str ''$x_1$''] []),
      ExprStmt (Call (Attribute (Name ''plt'') ''ylabel'') [Str ''$x_2$''] []),
      Assign
        (Name ''cax'')
        (Call
           (Attribute (Name ''plt'') ''imshow'')
           [Name ''y_prob'']
           [(''cmap'', Attribute (Name ''cm'') ''gray_r''),
            (''alpha'', Num ''0.8''),
            (''extent'',
             TupleE
               [UnaryOp ''-'' (Name ''lim''),
                Name ''lim'',
                UnaryOp ''-'' (Name ''lim''),
                Name ''lim''])]),
      Assign
        (Name ''norm'')
        (Call
           (Attribute
              (Attribute (Attribute (Name ''plt'') ''matplotlib'') ''colors'')
              ''Normalize'')
           []
           [(''vmin'', Num ''0.''), (''vmax'', Num ''0.9'')]),
      Assign
        (Name ''cb'')
        (Call
           (Attribute (Name ''plt'') ''colorbar'')
           [Name ''cax'']
           [(''ticks'',
             ListE
               [Num ''0.'', Num ''0.2'', Num ''0.4'', Num ''0.6'', Num ''0.8'', Num ''1.'']),
            (''norm'', Name ''norm'')]),
      ExprStmt
        (Call
           (Attribute (Name ''cb'') ''set_label'')
           [Str
              (''${'' @ [CHR 0x5C] @ ''rm '' @ [CHR 0x5C] @ ''mathbb{P}}'' @ [CHR 0x5C] @ ''left['' @ [CHR 0x5C] @ ''widehat{G}('' @ [CHR 0x5C] @ ''mathbf{x}) '' @ [CHR 0x5C] @ ''leq 0'' @ [CHR 0x5C] @ ''right]$'')]
           []),
      ExprStmt (Call (Attribute (Name ''plt'') ''clim'') [Num ''0'', Num ''1''] []),
      ExprStmt
        (Call
           (Attribute (Name ''plt'') ''plot'')
           [Subscript
              (Name ''X'')
              (TupleE [Compare (Name ''y'') ''<='' (Num ''0''), Num ''0'']),
            Subscript
              (Name ''X'')
              (TupleE [Compare (Name ''y'') ''<='' (Num ''0''), Num ''1'']),
            Str ''r.'']
           [(''markersize'', Num ''12'')])]"

text \<open>Statements of \<open>plot_gpc_isoprobability\<close>:
\<^verbatim>\<open>
  plt.plot(X[y > 0, 0], X[y > 0, 1], 'b.', markersize=12)

  cs = plt.contour(x1, x2, y_true, [0.], colors='k', linestyles='dashdot')

  cs = plt.contour(x1, x2, y_prob, [0.666], colors='b',
                   linestyles='solid')
  plt.clabel(cs, fontsize=11)

  cs = plt.contour(x1, x2, y_prob, [0.5], colors='k',
                   linestyles='dashed')
  plt.clabel(cs, fontsize=11)

  cs = plt.contour(x1, x2, y_prob, [0.334], colors='r',
                   linestyles='solid')
  plt.clabel(cs, fontsize=11)

  plt.show()
\<close>\<close>

definition plot_gpc_isoprobability_part6 :: "stmt list" where
  "plot_gpc_isoprobability_part6 =
     [ExprStmt
        (Call
           (Attribute (Name ''plt'') ''plot'')
           [Subscript
              (Name ''X'')
              (TupleE [Compare (Name ''y'') ''>'' (Num ''0''), Num ''0'']),
            Subscript
              (Name ''X'')
              (TupleE [Compare (Name ''y'') ''>'' (Num ''0''), Num ''1'']),
            Str ''b.'']
           [(''markersize'', Num ''12'')]),
      Assign
        (Name ''cs'')
        (Call
           (Attribute (Name ''plt'') ''contour'')
           [Name ''x1'', Name ''x2'', Name ''y_true'', ListE [Num ''0.'']]
           [(''colors'', Str ''k''), (''linestyles'', Str ''dashdot'')]),
      Assign
        (Name ''cs'')
        (Call
           (Attribute (Name ''plt'') ''contour'')
           [Name ''x1'', Name ''x2'', Name ''y_prob'', ListE [Num ''0.666'']]
           [(''colors'', Str ''b''), (''linestyles'', Str ''solid'')]),
      ExprStmt
        (Call
           (Attribute (Name ''plt'') ''clabel'')
           [Name ''cs'']
           [(''fontsize'', Num ''11'')]),
      Assign
        (Name ''cs'')
        (Call
           (Attribute (Name ''plt'') ''contour'')
           [Name ''x1'', Name ''x2'', Name ''y_prob'', ListE [Num ''0.5'']]
           [(''colors'', Str ''k''), (''linestyles'', Str ''dashed'')]),
      ExprStmt
        (Call
           (Attribute (Name ''plt'') ''clabel'')
           [Name ''cs'']
           [(''fontsize'', Num ''11'')]),
      Assign
        (Name ''cs'')
        (Call
           (Attribute (Name ''plt'') ''contour'')
           [Name ''x1'', Name ''x2'', Name ''y_prob'', ListE [Num ''0.334'']]
           [(''colors'', Str ''r''), (''linestyles'', Str ''solid'')]),
      ExprStmt
        (Call
           (Attribute (Name ''plt'') ''clabel'')
           [Name ''cs'']
           [(''fontsize'', Num ''11'')]),
      ExprStmt (Call (Attribute (Name ''plt'') ''show'') [] [])]"

definition plot_gpc_isoprobability :: "stmt list" where
  "plot_gpc_isoprobability =
     concat
       [plot_gpc_isoprobability_magic,
        plot_gpc_isoprobability_part2,
        plot_gpc_isoprobability_function_g,
        plot_gpc_isoprobability_part4,
        plot_gpc_isoprobability_part5,
        plot_gpc_isoprobability_part6]"

text \<open>Notebook cell of \<open>plot_gpc_iris\<close>:
\<^verbatim>\<open>%matplotlib inline\<close>\<close>

definition plot_gpc_iris_magic :: "stmt list" where
  "plot_gpc_iris_magic = [Magic ''matplotlib inline'']"

text \<open>Statements of \<open>plot_gpc_iris\<close>:
\<^verbatim>\<open>
  print(__doc__)

  import numpy as np
  import matplotlib.pyplot as plt
  from sklearn import datasets
  from sklearn.gaussian_process import GaussianProcessClassifier
  from sklearn.gaussian_process.kernels import RBF

  # import some data to play with
  iris = datasets.load_iris()
  X = iris.data[:, :2]  # we only take the first two features.
  y = np.array(iris.target, dtype=int)

  h = .02  # step size in the mesh

  kernel = 1.0 * RBF([1.0])
  gpc_rbf_isotropic = GaussianProcessClassifier(kernel=kernel).fit(X, y)
  kernel = 1.0 * RBF([1.0, 1.0])
  gpc_rbf_anisotropic = GaussianProcessClassifier(kernel=kernel).fit(X, y)
\<close>\<close>

definition plot_gpc_iris_part2 :: "stmt list" where
  "plot_gpc_iris_part2 =
     [ExprStmt (Call (Name ''print'') [Name ''__doc__''] []),
      Import ''numpy'' (Some ''np''),
      Import ''matplotlib.pyplot'' (Some ''plt''),
      ImportFrom ''sklearn'' [(''datasets'', None)],
      ImportFrom ''sklearn.gaussian_process'' [(''GaussianProcessClassifier'', None)],
      ImportFrom ''sklearn.gaussian_process.kernels'' [(''RBF'', None)],
      Assign (Name ''iris'') (Call (Attribute (Name ''datasets'') ''load_iris'') [] []),
      Assign
        (Name ''X'')
        (Subscript
           (Attribute (Name ''iris'') ''data'')
           (TupleE [Slice None None, Slice None (Some (Num ''2''))])),
      Assign
        (Name ''y'')
        (Call
           (Attribute (Name ''np'') ''array'')
           [Attribute (Name ''iris'') ''target'']
           [(''dtype'', Name ''int'')]),
      Assign (Name ''h'') (Num ''.02''),
      Assign
        (Name ''kernel'')
        (BinOp (Num ''1.0'') ''*'' (Call (Name ''RBF'') [ListE [Num ''1.0'']] [])),
      Assign
        (Name ''gpc_rbf_isotropic'')
        (Call
           (Attribute
              (Call (Name ''GaussianProcessClassifier'') [] [(''kernel'', Name ''kernel'')])
              ''fit'')
           [Name ''X'', Name ''y'']
           []),
      Assign
        (Name ''kernel'')
        (BinOp
           (Num ''1.0'')
           ''*''
           (Call (Name ''RBF'') [ListE [Num ''1.0'', Num ''1.0'']] [])),
      Assign
        (Name ''gpc_rbf_anisotropic'')
        (Call
           (Attribute
              (Call (Name ''GaussianProcessClassifier'') [] [(''kernel'', Name ''kernel'')])
              ''fit'')
           [Name ''X'', Name ''y'']
           [])]"

text \<open>Statements of \<open>plot_gpc_iris\<close>:
\<^verbatim>\<open>
  x_min, x_max = X[:, 0].min() - 1, X[:, 0].max() + 1
  y_min, y_max = X[:, 1].min() - 1, X[:, 1].max() + 1
  xx, yy = np.meshgrid(np.arange(x_min, x_max, h),
                       np.arange(y_min, y_max, h))

  titles = ["Isotropic RBF", "Anisotropic RBF"]
  plt.figure(figsize=(10, 5))
  for i, clf in enumerate((gpc_rbf_isotropic, gpc_rbf_anisotropic)):
      # Plot the predicted probabilities. For that, we will assign a color to
      # each point in the mesh [x_min, m_max]x[y_min, y_max].
      plt.subplot(1, 2, i + 1)

      Z = clf.predict_proba(np.c_[xx.ravel(), yy.ravel()])

      # Put the result into a color plot
      Z = Z.reshape((xx.shape[0], xx.shape[1], 3))
      plt.imshow(Z, extent=(x_min, x_max, y_min, y_max), origin="lower")

      # Plot also the training points
      plt.scatter(X[:, 0], X[:, 1], c=np.array(["r", "g", "b"])[y])
      plt.xlabel('Sepal length')
      plt.ylabel('Sepal width')
      plt.xlim(xx.min(), xx.max())
      plt.ylim(yy.min(), yy.max())
      plt.xticks(())
      plt.yticks(())
      plt.title("%s, LML: %.3f" %
                (titles[i], clf.log_marginal_likelihood(clf.kernel_.theta)))

  plt.tight_layout()
  plt.show()
\<close>\<close>

definition plot_gpc_iris_part3 :: "stmt list" where
  "plot_gpc_iris_part3 =
     [Assign
        (TupleE [Name ''x_min'', Name ''x_max''])
        (TupleE
           [BinOp
              (Call
                 (Attribute
                    (Subscript (Name ''X'') (TupleE [Slice None None, Num ''0'']))
                    ''min'')
                 []
                 [])
              ''-''
              (Num ''1''),
            BinOp
              (Call
                 (Attribute
                    (Subscript (Name ''X'') (TupleE [Slice None None, Num ''0'']))
                    ''max'')
                 []
                 [])
              ''+''
              (Num ''1'')]),
      Assign
        (TupleE [Name ''y_min'', Name ''y_max''])
        (TupleE
           [BinOp
              (Call
                 (Attribute
                    (Subscript (Name ''X'') (TupleE [Slice None None, Num ''1'']))
                    ''min'')
                 []
                 [])
              ''-''
              (Num ''1''),
            BinOp
              (Call
                 (Attribute
                    (Subscript (Name ''X'') (TupleE [Slice None None, Num ''1'']))
                    ''max'')
                 []
                 [])
              ''+''
              (Num ''1'')]),
      Assign
        (TupleE [Name ''xx'', Name ''yy''])
        (Call
           (Attribute (Name ''np'') ''meshgrid'')
           [Call
              (Attribute (Name ''np'') ''arange'')
              [Name ''x_min'', Name ''x_max'', Name ''h'']
              [],
            Call
              (Attribute (Name ''np'') ''arange'')
              [Name ''y_min'', Name ''y_max'', Name ''h'']
              []]
           []),
      Assign (Name ''titles'') (ListE [Str ''Isotropic RBF'', Str ''Anisotropic RBF'']),
      ExprStmt
        (Call
           (Attribute (Name ''plt'') ''figure'')
           []
           [(''figsize'', TupleE [Num ''10'', Num ''5''])]),
      For
        (TupleE [Name ''i'', Name ''clf''])
        (Call
           (Name ''enumerate'')
           [TupleE [Name ''gpc_rbf_isotropic'', Name ''gpc_rbf_anisotropic'']]
           [])
        [ExprStmt
           (Call
              (Attribute (Name ''plt'') ''subplot'')
              [Num ''1'', Num ''2'', BinOp (Name ''i'') ''+'' (Num ''1'')]
              []),
         Assign
           (Name ''Z'')
           (Call
              (Attribute (Name ''clf'') ''predict_proba'')
              [Subscript
                 (Attribute (Name ''np'') ''c_'')
                 (TupleE
                    [Call (Attribute (Name ''xx'') ''ravel'') [] [],
                     Call (Attribute (Name ''yy'') ''ravel'') [] []])]
              []),
         Assign
           (Name ''Z'')
           (Call
              (Attribute (Name ''Z'') ''reshape'')
              [TupleE
                 [Subscript (Attribute (Name ''xx'') ''shape'') (Num ''0''),
                  Subscript (Attribute (Name ''xx'') ''shape'') (Num ''1''),
                  Num ''3'']]
              []),
         ExprStmt
           (Call
              (Attribute (Name ''plt'') ''imshow'')
              [Name ''Z'']
              [(''extent'',
                TupleE [Name ''x_min'', Name ''x_max'', Name ''y_min'', Name ''y_max'']),
               (''origin'', Str ''lower'')]),
         ExprStmt
           (Call
              (Attribute (Name ''plt'') ''scatter'')
              [Subscript (Name ''X'') (TupleE [Slice None None, Num ''0'']),
               Subscript (Name ''X'') (TupleE [Slice None None, Num ''1''])]
              [(''c'',
                Subscript
                  (Call
                     (Attribute (Name ''np'') ''array'')
                     [ListE [Str ''r'', Str ''g'', Str ''b'']]
                     [])
                  (Name ''y''))]),
         ExprStmt (Call (Attribute (Name ''plt'') ''xlabel'') [Str ''Sepal length''] []),
         ExprStmt (Call (Attribute (Name ''plt'') ''ylabel'') [Str ''Sepal width''] []),
         ExprStmt
           (Call
              (Attribute (Name ''plt'') ''xlim'')
              [Call (Attribute (Name ''xx'') ''min'') [] [],
               Call (Attribute (Name ''xx'') ''max'') [] []]
              []),
         ExprStmt
           (Call
              (Attribute (Name ''plt'') ''ylim'')
              [Call (Attribute (Name ''yy'') ''min'') [] [],
               Call (Attribute (Name ''yy'') ''max'') [] []]
              []),
         ExprStmt (Call (Attribute (Name ''plt'') ''xticks'') [TupleE []] []),
         ExprStmt (Call (Attribute (Name ''plt'') ''yticks'') [TupleE []] []),
         ExprStmt
           (Call
              (Attribute (Name ''plt'') ''title'')
              [BinOp
                 (Str ''%s, LML: %.3f'')
                 ''%''
                 (TupleE
                    [Subscript (Name ''titles'') (Name ''i''),
                     Call
                       (Attribute (Name ''clf'') ''log_marginal_likelihood'')
                       [Attribute (Attribute (Name ''clf'') ''kernel_'') ''theta'']
                       []])]
              [])],
      ExprStmt (Call (Attribute (Name ''plt'') ''tight_layout'') [] []),
      ExprStmt (Call (Attribute (Name ''plt'') ''show'') [] [])]"

definition plot_gpc_iris :: "stmt list" where
  "plot_gpc_iris =
     concat
       [plot_gpc_iris_magic,
        plot_gpc_iris_part2,
        plot_gpc_iris_part3]"

text \<open>Notebook cell of \<open>plot_missing_values\<close>:
\<^verbatim>\<open>%matplotlib inline\<close>\<close>

definition plot_missing_values_magic :: "stmt list" where
  "plot_missing_values_magic = [Magic ''matplotlib inline'']"

text \<open>Statements of \<open>plot_missing_values\<close>:
\<^verbatim>\<open>
  import numpy as np
  import matplotlib.pyplot as plt

  from sklearn.datasets import load_diabetes
  from sklearn.datasets import load_boston
  from sklearn.ensemble import RandomForestRegressor
  from sklearn.pipeline import make_pipeline, make_union
  from sklearn.impute import SimpleImputer, MissingIndicator
  from sklearn.model_selection import cross_val_score

  rng = np.random.RandomState(0)
\<close>\<close>

definition plot_missing_values_part2 :: "stmt list" where
  "plot_missing_values_part2 =
     [Import ''numpy'' (Some ''np''),
      Import ''matplotlib.pyplot'' (Some ''plt''),
      ImportFrom ''sklearn.datasets'' [(''load_diabetes'', None)],
      ImportFrom ''sklearn.datasets'' [(''load_boston'', None)],
      ImportFrom ''sklearn.ensemble'' [(''RandomForestRegressor'', None)],
      ImportFrom ''sklearn.pipeline'' [(''make_pipeline'', None), (''make_union'', None)],
      ImportFrom
        ''sklearn.impute''
        [(''SimpleImputer'', None), (''MissingIndicator'', None)],
      ImportFrom ''sklearn.model_selection'' [(''cross_val_score'', None)],
      Assign
        (Name ''rng'')
        (Call
           (Attribute (Attribute (Name ''np'') ''random'') ''RandomState'')
           [Num ''0'']
           [])]"

text \<open>Function \<open>get_results\<close> of \<open>plot_missing_values\<close>:
\<^verbatim>\<open>
  def get_results(dataset):
      X_full, y_full = dataset.data, dataset.target
      n_samples = X_full.shape[0]
      n_features = X_full.shape[1]

      # Estimate the score on the entire dataset, with no missing values
      estimator = RandomForestRegressor(random_state=0, n_estimators=100)
      full_scores = cross_val_score(estimator, X_full, y_full,
                                    scoring='neg_mean_squared_error')

      # Add missing values in 75% of the lines
      missing_rate = 0.75
      n_missing_samples = int(np.floor(n_samples * missing_rate))
      missing_samples = np.hstack((np.zeros(n_samples - n_missing_samples,
                                            dtype=np.bool),
                                   np.ones(n_missing_samples,
                                           dtype=np.bool)))
      rng.shuffle(missing_samples)
      missing_features = rng.randint(0, n_features, n_missing_samples)

      # Estimate the score after replacing missing values by 0
      X_missing = X_full.copy()
      X_missing[np.where(missing_samples)[0], missing_features] = 0
      y_missing = y_full.copy()
      estimator = RandomForestRegressor(random_state=0, n_estimators=100)
      zero_impute_scores = cross_val_score(estimator, X_missing, y_missing,
                                           scoring='neg_mean_squared_error')

      # Estimate the score after imputation (mean strategy) of the missing values
      X_missing = X_full.copy()
      X_missing[np.where(missing_samples)[0], missing_features] = 0
      y_missing = y_full.copy()
      estimator = make_pipeline(
          make_union(SimpleImputer(missing_values=0, strategy="mean"),
                     MissingIndicator(missing_values=0)),
          RandomForestRegressor(random_state=0, n_estimators=100))
      mean_impute_scores = cross_val_score(estimator, X_missing, y_missing,
                                           scoring='neg_mean_squared_error')


      return ((full_scores.mean(), full_scores.std()),
              (zero_impute_scores.mean(), zero_impute_scores.std()),
              (mean_impute_scores.mean(), mean_impute_scores.std()))
\<close>\<close>

definition get_results_body :: "stmt list" where
  "get_results_body =
     [Assign
        (TupleE [Name ''X_full'', Name ''y_full''])
        (TupleE
           [Attribute (Name ''dataset'') ''data'', Attribute (Name ''dataset'') ''target'']),
      Assign
        (Name ''n_samples'')
        (Subscript (Attribute (Name ''X_full'') ''shape'') (Num ''0'')),
      Assign
        (Name ''n_features'')
        (Subscript (Attribute (Name ''X_full'') ''shape'') (Num ''1'')),
      Assign
        (Name ''estimator'')
        (Call
           (Name ''RandomForestRegressor'')
           []
           [(''random_state'', Num ''0''), (''n_estimators'', Num ''100'')]),
      Assign
        (Name ''full_scores'')
        (Call
           (Name ''cross_val_score'')
           [Name ''estimator'', Name ''X_full'', Name ''y_full'']
           [(''scoring'', Str ''neg_mean_squared_error'')]),
      Assign (Name ''missing_rate'') (Num ''0.75''),
      Assign
        (Name ''n_missing_samples'')
        (Call
           (Name ''int'')
           [Call
              (Attribute (Name ''np'') ''floor'')
              [BinOp (Name ''n_samples'') ''*'' (Name ''missing_rate'')]
              []]
           []),
      Assign
        (Name ''missing_samples'')
        (Call
           (Attribute (Name ''np'') ''hstack'')
           [TupleE
              [Call
                 (Attribute (Name ''np'') ''zeros'')
                 [BinOp (Name ''n_samples'') ''-'' (Name ''n_missing_samples'')]
                 [(''dtype'', Attribute (Name ''np'') ''bool'')],
               Call
                 (Attribute (Name ''np'') ''ones'')
                 [Name ''n_missing_samples'']
                 [(''dtype'', Attribute (Name ''np'') ''bool'')]]]
           []),
      ExprStmt (Call (Attribute (Name ''rng'') ''shuffle'') [Name ''missing_samples''] []),
      Assign
        (Name ''missing_features'')
        (Call
           (Attribute (Name ''rng'') ''randint'')
           [Num ''0'', Name ''n_features'', Name ''n_missing_samples'']
           []),
      Assign (Name ''X_missing'') (Call (Attribute (Name ''X_full'') ''copy'') [] []),
      Assign
        (Subscript
           (Name ''X_missing'')
           (TupleE
              [Subscript
                 (Call (Attribute (Name ''np'') ''where'') [Name ''missing_samples''] [])
                 (Num ''0''),
               Name ''missing_features'']))
        (Num ''0''),
      Assign (Name ''y_missing'') (Call (Attribute (Name ''y_full'') ''copy'') [] []),
      Assign
        (Name ''estimator'')
        (Call
           (Name ''RandomForestRegressor'')
           []
           [(''random_state'', Num ''0''), (''n_estimators'', Num ''100'')]),
      Assign
        (Name ''zero_impute_scores'')
        (Call
           (Name ''cross_val_score'')
           [Name ''estimator'', Name ''X_missing'', Name ''y_missing'']
           [(''scoring'', Str ''neg_mean_squared_error'')]),
      Assign (Name ''X_missing'') (Call (Attribute (Name ''X_full'') ''copy'') [] []),
      Assign
        (Subscript
           (Name ''X_missing'')
           (TupleE
              [Subscript
                 (Call (Attribute (Name ''np'') ''where'') [Name ''missing_samples''] [])
                 (Num ''0''),
               Name ''missing_features'']))
        (Num ''0''),
      Assign (Name ''y_missing'') (Call (Attribute (Name ''y_full'') ''copy'') [] []),
      Assign
        (Name ''estimator'')
        (Call
           (Name ''make_pipeline'')
           [Call
              (Name ''make_union'')
              [Call
                 (Name ''SimpleImputer'')
                 []
                 [(''missing_values'', Num ''0''), (''strategy'', Str ''mean'')],
               Call (Name ''MissingIndicator'') [] [(''missing_values'', Num ''0'')]]
              [],
            Call
              (Name ''RandomForestRegressor'')
              []
              [(''random_state'', Num ''0''), (''n_estimators'', Num ''100'')]]
           []),
      Assign
        (Name ''mean_impute_scores'')
        (Call
           (Name ''cross_val_score'')
           [Name ''estimator'', Name ''X_missing'', Name ''y_missing'']
           [(''scoring'', Str ''neg_mean_squared_error'')]),
      Return
        (TupleE
           [TupleE
              [Call (Attribute (Name ''full_scores'') ''mean'') [] [],
               Call (Attribute (Name ''full_scores'') ''std'') [] []],
            TupleE
              [Call (Attribute (Name ''zero_impute_scores'') ''mean'') [] [],
               Call (Attribute (Name ''zero_impute_scores'') ''std'') [] []],
            TupleE
              [Call (Attribute (Name ''mean_impute_scores'') ''mean'') [] [],
               Call (Attribute (Name ''mean_impute_scores'') ''std'') [] []]])]"

definition plot_missing_values_function_get_results :: "stmt list" where
  "plot_missing_values_function_get_results =
     [FunctionDef ''get_results'' [''dataset''] get_results_body]"

text \<open>Statements of \<open>plot_missing_values\<close>:
\<^verbatim>\<open>
  results_diabetes = np.array(get_results(load_diabetes()))
  mses_diabetes = results_diabetes[:, 0] * -1
  stds_diabetes = results_diabetes[:, 1]

  results_boston = np.array(get_results(load_boston()))
  mses_boston = results_boston[:, 0] * -1
  stds_boston = results_boston[:, 1]

  n_bars = len(mses_diabetes)
  xval = np.arange(n_bars)

  x_labels = ['Full data',
              'Zero imputation',
              'Mean Imputation']
  colors = ['r', 'g', 'b', 'orange']

  # plot diabetes results
  plt.figure(figsize=(12, 6))
  ax1 = plt.subplot(121)
  for j in xval:
      ax1.barh(j, mses_diabetes[j], xerr=stds_diabetes[j],
               color=colors[j], alpha=0.6, align='center')

  ax1.set_title('Imputation Techniques with Diabetes Data')
\<close>\<close>

definition plot_missing_values_part4 :: "stmt list" where
  "plot_missing_values_part4 =
     [Assign
        (Name ''results_diabetes'')
        (Call
           (Attribute (Name ''np'') ''array'')
           [Call (Name ''get_results'') [Call (Name ''load_diabetes'') [] []] []]
           []),
      Assign
        (Name ''mses_diabetes'')
        (BinOp
           (Subscript (Name ''results_diabetes'') (TupleE [Slice None None, Num ''0'']))
           ''*''
           (UnaryOp ''-'' (Num ''1''))),
      Assign
        (Name ''stds_diabetes'')
        (Subscript (Name ''results_diabetes'') (TupleE [Slice None None, Num ''1''])),
      Assign
        (Name ''results_boston'')
        (Call
           (Attribute (Name ''np'') ''array'')
           [Call (Name ''get_results'') [Call (Name ''load_boston'') [] []] []]
           []),
      Assign
        (Name ''mses_boston'')
        (BinOp
           (Subscript (Name ''results_boston'') (TupleE [Slice None None, Num ''0'']))
           ''*''
           (UnaryOp ''-'' (Num ''1''))),
      Assign
        (Name ''stds_boston'')
        (Subscript (Name ''results_boston'') (TupleE [Slice None None, Num ''1''])),
      Assign (Name ''n_bars'') (Call (Name ''len'') [Name ''mses_diabetes''] []),
      Assign
        (Name ''xval'')
        (Call (Attribute (Name ''np'') ''arange'') [Name ''n_bars''] []),
      Assign
        (Name ''x_labels'')
        (ListE [Str ''Full data'', Str ''Zero imputation'', Str ''Mean Imputation'']),
      Assign (Name ''colors'') (ListE [Str ''r'', Str ''g'', Str ''b'', Str ''orange'']),
      ExprStmt
        (Call
           (Attribute (Name ''plt'') ''figure'')
           []
           [(''figsize'', TupleE [Num ''12'', Num ''6''])]),
      Assign (Name ''ax1'') (Call (Attribute (Name ''plt'') ''subplot'') [Num ''121''] []),
      For
        (Name ''j'')
        (Name ''xval'')
        [ExprStmt
           (Call
              (Attribute (Name ''ax1'') ''barh'')
              [Name ''j'', Subscript (Name ''mses_diabetes'') (Name ''j'')]
              [(''xerr'', Subscript (Name ''stds_diabetes'') (Name ''j'')),
               (''color'', Subscript (Name ''colors'') (Name ''j'')),
               (''alpha'', Num ''0.6''),
               (''align'', Str ''center'')])],
      ExprStmt
        (Call
           (Attribute (Name ''ax1'') ''set_title'')
           [Str ''Imputation Techniques with Diabetes Data'']
           [])]"

text \<open>Statements of \<open>plot_missing_values\<close>:
\<^verbatim>\<open>
  ax1.set_xlim(left=np.min(mses_diabetes) * 0.9,
               right=np.max(mses_diabetes) * 1.1)
  ax1.set_yticks(xval)
  ax1.set_xlabel('MSE')
  ax1.invert_yaxis()
  ax1.set_yticklabels(x_labels)

  # plot boston results
  ax2 = plt.subplot(122)
  for j in xval:
      ax2.barh(j, mses_boston[j], xerr=stds_boston[j],
               color=colors[j], alpha=0.6, align='center')

  ax2.set_title('Imputation Techniques with Boston Data')
  ax2.set_yticks(xval)
  ax2.set_xlabel('MSE')
  ax2.invert_yaxis()
  ax2.set_yticklabels([''] * n_bars)

  plt.show()
\<close>\<close>

definition plot_missing_values_part5 :: "stmt list" where
  "plot_missing_values_part5 =
     [ExprStmt
        (Call
           (Attribute (Name ''ax1'') ''set_xlim'')
           []
           [(''left'',
             BinOp
               (Call (Attribute (Name ''np'') ''min'') [Name ''mses_diabetes''] [])
               ''*''
               (Num ''0.9'')),
            (''right'',
             BinOp
               (Call (Attribute (Name ''np'') ''max'') [Name ''mses_diabetes''] [])
               ''*''
               (Num ''1.1''))]),
      ExprStmt (Call (Attribute (Name ''ax1'') ''set_yticks'') [Name ''xval''] []),
      ExprStmt (Call (Attribute (Name ''ax1'') ''set_xlabel'') [Str ''MSE''] []),
      ExprStmt (Call (Attribute (Name ''ax1'') ''invert_yaxis'') [] []),
      ExprStmt (Call (Attribute (Name ''ax1'') ''set_yticklabels'') [Name ''x_labels''] []),
      Assign (Name ''ax2'') (Call (Attribute (Name ''plt'') ''subplot'') [Num ''122''] []),
      For
        (Name ''j'')
        (Name ''xval'')
        [ExprStmt
           (Call
              (Attribute (Name ''ax2'') ''barh'')
              [Name ''j'', Subscript (Name ''mses_boston'') (Name ''j'')]
              [(''xerr'', Subscript (Name ''stds_boston'') (Name ''j'')),
               (''color'', Subscript (Name ''colors'') (Name ''j'')),
               (''alpha'', Num ''0.6''),
               (''align'', Str ''center'')])],
      ExprStmt
        (Call
           (Attribute (Name ''ax2'') ''set_title'')
           [Str ''Imputation Techniques with Boston Data'']
           []),
      ExprStmt (Call (Attribute (Name ''ax2'') ''set_yticks'') [Name ''xval''] []),
      ExprStmt (Call (Attribute (Name ''ax2'') ''set_xlabel'') [Str ''MSE''] []),
      ExprStmt (Call (Attribute (Name ''ax2'') ''invert_yaxis'') [] []),
      ExprStmt
        (Call
           (Attribute (Name ''ax2'') ''set_yticklabels'')
           [BinOp (ListE [Str '''']) ''*'' (Name ''n_bars'')]
           []),
      ExprStmt (Call (Attribute (Name ''plt'') ''show'') [] [])]"

definition plot_missing_values :: "stmt list" where
  "plot_missing_values =
     concat
       [plot_missing_values_magic,
        plot_missing_values_part2,
        plot_missing_values_function_get_results,
        plot_missing_values_part4,
        plot_missing_values_part5]"

definition scripts :: "stmt list list" where
  "scripts = [plot_feature_stacker, plot_compare_reduction, plot_optics,
     plot_gpc_isoprobability, plot_gpc_iris, plot_missing_values]"

definition script_names :: "string list" where
  "script_names = [''plot_feature_stacker'', ''plot_compare_reduction'', ''plot_optics'',
     ''plot_gpc_isoprobability'', ''plot_gpc_iris'', ''plot_missing_values'',
     ''plot_stock_market'']"

section \<open>Reading the syntax trees\<close>

text \<open>Every expression below an expression, the expression itself first.\<close>

fun subexprs :: "expr \<Rightarrow> expr list" where
  "subexprs (Name x) = [Name x]"
| "subexprs (Num n) = [Num n]"
| "subexprs (Str s) = [Str s]"
| "subexprs (Attribute e a) = Attribute e a # subexprs e"
| "subexprs (Subscript e i) = Subscript e i # subexprs e @ subexprs i"
| "subexprs (Call f args kws) =
     Call f args kws # subexprs f @ concat (map subexprs args)
       @ concat (map (\<lambda>kw. subexprs (snd kw)) kws)"
| "subexprs (BinOp a op b) = BinOp a op b # subexprs a @ subexprs b"
| "subexprs (UnaryOp op a) = UnaryOp op a # subexprs a"
| "subexprs (Compare a op b) = Compare a op b # subexprs a @ subexprs b"
| "subexprs (ListE es) = ListE es # concat (map subexprs es)"
| "subexprs (TupleE es) = TupleE es # concat (map subexprs es)"
| "subexprs (DictE kvs) =
     DictE kvs # concat (map (\<lambda>kv. subexprs (fst kv) @ subexprs (snd kv)) kvs)"
| "subexprs (Slice lo hi) =
     Slice lo hi # (case lo of None \<Rightarrow> [] | Some e \<Rightarrow> subexprs e)
       @ (case hi of None \<Rightarrow> [] | Some e \<Rightarrow> subexprs e)"
| "subexprs (IfExp c a b) = IfExp c a b # subexprs c @ subexprs a @ subexprs b"
| "subexprs (Lambda ps e) = Lambda ps e # subexprs e"

text \<open>Every statement below a statement (bodies, branches, handlers), itself first.\<close>

fun substmts :: "stmt \<Rightarrow> stmt list" where
  "substmts (FunctionDef f ps body) = FunctionDef f ps body # concat (map substmts body)"
| "substmts (ClassDef c body) = ClassDef c body # concat (map substmts body)"
| "substmts (For t it body) = For t it body # concat (map substmts body)"
| "substmts (While c body) = While c body # concat (map substmts body)"
| "substmts (IfStmt c a b) = IfStmt c a b # concat (map substmts a) @ concat (map substmts b)"
| "substmts (With e body) = With e body # concat (map substmts body)"
| "substmts (Try body hs fin) =
     Try body hs fin # concat (map substmts body)
       @ concat (map (\<lambda>h. concat (map substmts (snd h))) hs) @ concat (map substmts fin)"
| "substmts st = [st]"

text \<open>The expressions a statement holds itself, outside its nested statements.\<close>

fun own_exprs :: "stmt \<Rightarrow> expr list" where
  "own_exprs (Assign t v) = [t, v]"
| "own_exprs (ExprStmt e) = [e]"
| "own_exprs (Return e) = [e]"
| "own_exprs (Raise e) = [e]"
| "own_exprs (For t it _) = [t, it]"
| "own_exprs (While c _) = [c]"
| "own_exprs (IfStmt c _ _) = [c]"
| "own_exprs (With e _) = [e]"
| "own_exprs _ = []"

definition all_stmts :: "stmt list \<Rightarrow> stmt list" where
  "all_stmts prog = concat (map substmts prog)"

definition all_exprs :: "stmt list \<Rightarrow> expr list" where
  "all_exprs prog = concat (map subexprs (concat (map own_exprs (all_stmts prog))))"

subsection \<open>Control flow, handlers, definitions\<close>

fun is_branch :: "stmt \<Rightarrow> bool" where
  "is_branch (IfStmt _ _ _) = True"
| "is_branch (While _ _) = True"
| "is_branch _ = False"

fun is_conditional_expr :: "expr \<Rightarrow> bool" where
  "is_conditional_expr (IfExp _ _ _) = True"
| "is_conditional_expr _ = False"

text \<open>
  What can intercept an exception in Python: a \<open>try\<close> statement (an \<open>except\<close> or a
  \<open>finally\<close> clause) and a \<open>with\<close> statement (whose context manager may swallow it).
\<close>

fun is_handler :: "stmt \<Rightarrow> bool" where
  "is_handler (Try _ _ _) = True"
| "is_handler (With _ _) = True"
| "is_handler _ = False"

text \<open>A retry loop needs a condition re-evaluated after a failure: a \<open>while\<close>.\<close>

fun is_while :: "stmt \<Rightarrow> bool" where
  "is_while (While _ _) = True"
| "is_while _ = False"

fun is_raise :: "stmt \<Rightarrow> bool" where
  "is_raise (Raise _) = True"
| "is_raise _ = False"

fun function_name :: "stmt \<Rightarrow> string list" where
  "function_name (FunctionDef f _ _) = [f]"
| "function_name _ = []"

fun class_name :: "stmt \<Rightarrow> string list" where
  "class_name (ClassDef c _) = [c]"
| "class_name _ = []"

fun is_lambda :: "expr \<Rightarrow> bool" where
  "is_lambda (Lambda _ _) = True"
| "is_lambda _ = False"

definition defined_functions :: "stmt list \<Rightarrow> string list" where
  "defined_functions prog = concat (map function_name (all_stmts prog))"

definition defined_classes :: "stmt list \<Rightarrow> string list" where
  "defined_classes prog = concat (map class_name (all_stmts prog))"

definition no_branching :: "stmt list \<Rightarrow> bool" where
  "no_branching prog \<longleftrightarrow>
     \<not> list_ex is_branch (all_stmts prog) \<and> \<not> list_ex is_conditional_expr (all_exprs prog)"

definition no_error_handling :: "stmt list \<Rightarrow> bool" where
  "no_error_handling prog \<longleftrightarrow> \<not> list_ex is_handler (all_stmts prog)"

definition no_abstraction :: "stmt list \<Rightarrow> bool" where
  "no_abstraction prog \<longleftrightarrow>
     defined_functions prog = [] \<and> defined_classes prog = []
       \<and> \<not> list_ex is_lambda (all_exprs prog)"

definition straight_line :: "stmt list \<Rightarrow> bool" where
  "straight_line prog \<longleftrightarrow> no_branching prog \<and> no_error_handling prog \<and> no_abstraction prog"

subsection \<open>Names called\<close>

fun callee_name :: "expr \<Rightarrow> string list" where
  "callee_name (Call (Name f) _ _) = [f]"
| "callee_name _ = []"

definition called_names :: "stmt list \<Rightarrow> string list" where
  "called_names prog = remdups (concat (map callee_name (all_exprs prog)))"

fun name_of :: "expr \<Rightarrow> string list" where
  "name_of (Name x) = [x]"
| "name_of _ = []"

definition used_names :: "stmt list \<Rightarrow> string list" where
  "used_names prog = remdups (concat (map name_of (all_exprs prog)))"

subsection \<open>Imports\<close>

text \<open>The top-level package of a dotted module name.\<close>

definition top_package :: "string \<Rightarrow> string" where
  "top_package m = takeWhile (\<lambda>c. c \<noteq> CHR ''.'') m"

text \<open>
  The names an import statement binds, each with the module it comes from.
  \<open>import a.b\<close> binds \<open>a\<close>; \<open>import a.b as c\<close> binds \<open>c\<close>; \<open>from m import x as y\<close>
  binds \<open>y\<close>.
\<close>

fun import_bindings :: "stmt \<Rightarrow> (string \<times> string) list" where
  "import_bindings (Import m None) = [(top_package m, m)]"
| "import_bindings (Import m (Some a)) = [(a, m)]"
| "import_bindings (ImportFrom m ns) =
     map (\<lambda>na. (case snd na of None \<Rightarrow> fst na | Some a \<Rightarrow> a, m)) ns"
| "import_bindings _ = []"

text \<open>The names an import statement asks of its module (before any \<open>as\<close>).\<close>

fun import_requests :: "stmt \<Rightarrow> string list" where
  "import_requests (ImportFrom m ns) = map fst ns"
| "import_requests _ = []"

definition imports_of :: "stmt list \<Rightarrow> (string \<times> string) list" where
  "imports_of prog = concat (map import_bindings (all_stmts prog))"

definition imported_modules :: "stmt list \<Rightarrow> string list" where
  "imported_modules prog = remdups (map snd (imports_of prog))"

definition imported_objects :: "stmt list \<Rightarrow> string list" where
  "imported_objects prog = remdups (concat (map import_requests (all_stmts prog)))"

definition external_packages :: "string list" where
  "external_packages =
     [''sklearn'', ''numpy'', ''matplotlib'', ''tempfile'', ''shutil'', ''__future__'']"

text \<open>
  The estimators and utilities that carry out the computations named in the repository's
  description: PCA, NMF, SVM, OPTICS, Gaussian process classification, cross-validation.
\<close>

definition algorithm_names :: "string list" where
  "algorithm_names =
     [''PCA'', ''NMF'', ''SVC'', ''LinearSVC'', ''OPTICS'', ''GaussianProcessClassifier'',
      ''GridSearchCV'', ''cross_val_score'']"

definition python_builtins :: "string list" where
  "python_builtins = [''print'', ''dict'', ''zip'', ''enumerate'', ''range'', ''len'', ''int'']"

text \<open>Each algorithm name a script uses, with the module its import binds it to.\<close>

definition algorithm_sources :: "stmt list \<Rightarrow> (string \<times> string option) list" where
  "algorithm_sources prog =
     map (\<lambda>a. (a, map_option top_package (map_of (imports_of prog) a)))
       (filter (\<lambda>a. List.member algorithm_names a) (used_names prog))"

fun from_sklearn :: "string \<times> string option \<Rightarrow> bool" where
  "from_sklearn (_, Some r) = (r = ''sklearn'')"
| "from_sklearn (_, None) = False"

text \<open>The plain names a script calls that are neither imported nor Python built-ins.\<close>

definition own_callables :: "stmt list \<Rightarrow> string list" where
  "own_callables prog =
     filter (\<lambda>f. \<not> List.member (map fst (imports_of prog)) f \<and> \<not> List.member python_builtins f)
       (called_names prog)"

subsection \<open>Grid search and parallelism\<close>

text \<open>
  The keyword arguments of each call of the plain name \<open>f\<close>, in the order of the text;
  and, for each such call, the argument given for keyword \<open>k\<close>, \<open>None\<close> when absent.
\<close>

fun keywords_of_call :: "string \<Rightarrow> expr \<Rightarrow> (string \<times> expr) list list" where
  "keywords_of_call f (Call (Name g) _ kws) = (if f = g then [kws] else [])"
| "keywords_of_call f _ = []"

definition keyword_arguments :: "string \<Rightarrow> string \<Rightarrow> stmt list \<Rightarrow> expr option list" where
  "keyword_arguments f k prog =
     map (\<lambda>kws. map_of kws k) (concat (map (keywords_of_call f) (all_exprs prog)))"

fun call_keywords :: "expr \<Rightarrow> (string \<times> expr) list" where
  "call_keywords (Call _ _ kws) = kws"
| "call_keywords _ = []"

text \<open>Every \<open>n_jobs\<close> keyword of any call of a script.\<close>

definition n_jobs_arguments :: "stmt list \<Rightarrow> expr list" where
  "n_jobs_arguments prog =
     map snd (filter (\<lambda>kw. fst kw = ''n_jobs'') (concat (map call_keywords (all_exprs prog))))"

text \<open>
  The standard-library packages that create threads, processes or coroutines, and the
  names under which a library hands out workers.
\<close>

definition concurrency_packages :: "string list" where
  "concurrency_packages =
     [''threading'', ''_thread'', ''multiprocessing'', ''concurrent'', ''asyncio'',
      ''subprocess'', ''os'', ''queue'', ''joblib'']"

definition concurrency_objects :: "string list" where
  "concurrency_objects =
     [''Parallel'', ''delayed'', ''Thread'', ''Process'', ''Pool'', ''ThreadPoolExecutor'',
      ''ProcessPoolExecutor'', ''parallel_backend'']"

definition no_own_concurrency :: "stmt list \<Rightarrow> bool" where
  "no_own_concurrency prog \<longleftrightarrow>
     \<not> list_ex (\<lambda>m. List.member concurrency_packages (top_package m)) (imported_modules prog)
     \<and> \<not> list_ex (\<lambda>x. List.member concurrency_objects x) (imported_objects prog)
     \<and> \<not> list_ex (\<lambda>x. List.member concurrency_objects x) (used_names prog)"

subsection \<open>Module-level objects used inside functions\<close>

text \<open>The names an assignment target binds. A subscript or attribute target binds none.\<close>

fun target_names :: "expr \<Rightarrow> string list" where
  "target_names (Name x) = [x]"
| "target_names (TupleE es) = concat (map target_names es)"
| "target_names (ListE es) = concat (map target_names es)"
| "target_names _ = []"

text \<open>
  The names a statement binds in the scope it stands in. Python has function scope: the
  body of a loop or branch binds in the enclosing scope, the body of a function or class
  does not (only the function's or class's own name is bound outside).
\<close>

fun binds :: "stmt \<Rightarrow> string list" where
  "binds (Assign t _) = target_names t"
| "binds (For t _ body) = target_names t @ concat (map binds body)"
| "binds (While _ body) = concat (map binds body)"
| "binds (IfStmt _ a b) = concat (map binds a) @ concat (map binds b)"
| "binds (With _ body) = concat (map binds body)"
| "binds (Try body hs fin) =
     concat (map binds body) @ concat (map (\<lambda>h. concat (map binds (snd h))) hs)
       @ concat (map binds fin)"
| "binds (FunctionDef f _ _) = [f]"
| "binds (ClassDef c _) = [c]"
| "binds _ = []"

definition module_variables :: "stmt list \<Rightarrow> string list" where
  "module_variables prog = remdups (concat (map binds prog))"

text \<open>
  For a function definition: the names its body uses that the body does not bind, that
  are not parameters, and that the module binds by assignment. Imported library names
  are not counted: they are the library's objects, not the script's.
\<close>

fun globals_of_function :: "string list \<Rightarrow> stmt \<Rightarrow> (string \<times> string) list" where
  "globals_of_function mvars (FunctionDef f ps body) =
     map (\<lambda>x. (f, x))
       (filter (\<lambda>x. List.member mvars x \<and> \<not> List.member ps x
                     \<and> \<not> List.member (concat (map binds body)) x)
          (used_names body))"
| "globals_of_function mvars _ = []"

definition globals_in_functions :: "stmt list \<Rightarrow> (string \<times> string) list" where
  "globals_in_functions prog =
     concat (map (globals_of_function (module_variables prog)) (all_stmts prog))"

text \<open>The methods called on the object a name is bound to, in call order of the text.\<close>

fun method_on :: "string \<Rightarrow> expr \<Rightarrow> string list" where
  "method_on x (Call (Attribute (Name y) m) _ _) = (if x = y then [m] else [])"
| "method_on x _ = []"

definition methods_called_on :: "string \<Rightarrow> stmt list \<Rightarrow> string list" where
  "methods_called_on x prog = concat (map (method_on x) (all_exprs prog))"

text \<open>The value a module-level assignment gives a name, when there is exactly that form.\<close>

fun assigned_value :: "string \<Rightarrow> stmt \<Rightarrow> expr list" where
  "assigned_value x (Assign (Name y) v) = (if x = y then [v] else [])"
| "assigned_value x _ = []"

definition module_values :: "string \<Rightarrow> stmt list \<Rightarrow> expr list" where
  "module_values x prog = concat (map (assigned_value x) prog)"

section \<open>Running a script: where an exception goes\<close>

text \<open>
  A model of how Python runs a block of statements, reduced to what decides whether an
  exception reaches the top level. What the library does is left open: an environment
  says, for the statement executed as the \<open>t\<close>-th step, whether it raises and what; how
  often a loop entered at step \<open>t\<close> runs its body; which branch a condition takes; which
  exceptions a handler name matches; and whether a context manager swallows an
  exception. A run yields its outcome and the trace of the statements executed, in
  order; for a compound statement the trace records the statement each time its header
  is evaluated: the iterable of a \<open>for\<close> and then the fetch of each item, the condition
  of a \<open>while\<close> before each iteration and after the last, the condition of an \<open>if\<close>,
  the context manager of a \<open>with\<close>.

  A \<open>def\<close> or \<open>class\<close> statement is one step: running it binds a name. An exception
  raised inside a function of the script is an exception of the statement that calls it.
\<close>

datatype outcome = Normal | Raised string

record env =
  fails :: "nat \<Rightarrow> stmt \<Rightarrow> string option"
  iterations :: "nat \<Rightarrow> stmt \<Rightarrow> nat"
  branch :: "nat \<Rightarrow> stmt \<Rightarrow> bool"
  catches :: "string \<Rightarrow> string \<Rightarrow> bool"
  swallows :: "nat \<Rightarrow> stmt \<Rightarrow> bool"

type_synonym trace = "stmt list"

definition step :: "env \<Rightarrow> stmt \<Rightarrow> trace \<Rightarrow> outcome \<times> trace" where
  "step E st tr =
     (case fails E (length tr) st of
        None \<Rightarrow> (Normal, tr @ [st])
      | Some e \<Rightarrow> (Raised e, tr @ [st]))"

text \<open>The name of the exception a \<open>raise\<close> statement raises.\<close>

fun raised_name :: "expr \<Rightarrow> string" where
  "raised_name (Name x) = x"
| "raised_name (Call (Name x) _ _) = x"
| "raised_name _ = ''Exception''"

fun exec :: "env \<Rightarrow> stmt \<Rightarrow> trace \<Rightarrow> outcome \<times> trace"
  and exec_block :: "env \<Rightarrow> stmt list \<Rightarrow> trace \<Rightarrow> outcome \<times> trace"
  and exec_handlers :: "env \<Rightarrow> string \<Rightarrow> (string \<times> stmt list) list \<Rightarrow> trace \<Rightarrow> outcome \<times> trace"
where
  "exec E (For t it body) tr =
     (case step E (For t it body) tr of
        (Raised e, tr1) \<Rightarrow> (Raised e, tr1)
      | (Normal, tr1) \<Rightarrow>
          fold (\<lambda>_ r. case r of
                  (Raised e, tr2) \<Rightarrow> (Raised e, tr2)
                | (Normal, tr2) \<Rightarrow>
                    (case step E (For t it body) tr2 of
                       (Raised e, tr3) \<Rightarrow> (Raised e, tr3)
                     | (Normal, tr3) \<Rightarrow> exec_block E body tr3))
            [0..<iterations E (length tr) (For t it body)] (Normal, tr1))"
| "exec E (While c body) tr =
     (case step E (While c body) tr of
        (Raised e, tr1) \<Rightarrow> (Raised e, tr1)
      | (Normal, tr1) \<Rightarrow>
          fold (\<lambda>_ r. case r of
                  (Raised e, tr2) \<Rightarrow> (Raised e, tr2)
                | (Normal, tr2) \<Rightarrow>
                    (case exec_block E body tr2 of
                       (Raised e, tr3) \<Rightarrow> (Raised e, tr3)
                     | (Normal, tr3) \<Rightarrow> step E (While c body) tr3))
            [0..<iterations E (length tr) (While c body)] (Normal, tr1))"
| "exec E (IfStmt c a b) tr =
     (case step E (IfStmt c a b) tr of
        (Raised e, tr1) \<Rightarrow> (Raised e, tr1)
      | (Normal, tr1) \<Rightarrow>
          if branch E (length tr) (IfStmt c a b) then exec_block E a tr1 else exec_block E b tr1)"
| "exec E (With c body) tr =
     (case step E (With c body) tr of
        (Raised e, tr1) \<Rightarrow> (Raised e, tr1)
      | (Normal, tr1) \<Rightarrow>
          (case exec_block E body tr1 of
             (Raised e, tr2) \<Rightarrow>
               if swallows E (length tr) (With c body) then (Normal, tr2) else (Raised e, tr2)
           | (Normal, tr2) \<Rightarrow> (Normal, tr2)))"
| "exec E (Try body hs fin) tr =
     (case (case exec_block E body tr of
              (Raised e, tr1) \<Rightarrow> exec_handlers E e hs tr1
            | (Normal, tr1) \<Rightarrow> (Normal, tr1)) of
        (out, tr2) \<Rightarrow>
          (case exec_block E fin tr2 of
             (Raised e', tr3) \<Rightarrow> (Raised e', tr3)
           | (Normal, tr3) \<Rightarrow> (out, tr3)))"
| "exec E (Raise x) tr = (Raised (raised_name x), tr @ [Raise x])"
| "exec E st tr = step E st tr"
| "exec_block E [] tr = (Normal, tr)"
| "exec_block E (st # sts) tr =
     (case exec E st tr of
        (Raised e, tr1) \<Rightarrow> (Raised e, tr1)
      | (Normal, tr1) \<Rightarrow> exec_block E sts tr1)"
| "exec_handlers E e [] tr = (Raised e, tr)"
| "exec_handlers E e (h # hs) tr =
     (if catches E (fst h) e then exec_block E (snd h) tr else exec_handlers E e hs tr)"

text \<open>The exceptions the environment raised along a trace, in order.\<close>

definition faults :: "env \<Rightarrow> trace \<Rightarrow> string list" where
  "faults E tr = List.map_filter (\<lambda>kst. fails E (fst kst) (snd kst)) (enumerate 0 tr)"

text \<open>
  A run propagates when it ended normally and nothing was raised, or ended with an
  exception \<open>e\<close>, the statement executed last raised \<open>e\<close>, and nothing was raised before.
\<close>

definition propagates :: "env \<Rightarrow> outcome \<times> trace \<Rightarrow> bool" where
  "propagates E run =
     (case run of
        (Normal, tr) \<Rightarrow> faults E tr = []
      | (Raised e, tr) \<Rightarrow>
          tr \<noteq> [] \<and> fails E (length tr - 1) (last tr) = Some e \<and> faults E (butlast tr) = [])"

definition handler_free :: "stmt list \<Rightarrow> bool" where
  "handler_free prog \<longleftrightarrow>
     \<not> list_ex is_handler (all_stmts prog) \<and> \<not> list_ex is_raise (all_stmts prog)"

section \<open>Exceptions of the library calls\<close>

text \<open>
  The exceptions the modelled library calls raise by name; any other failure of the
  library is a \<open>LibraryError\<close> with its name.
\<close>

datatype py_error = ValueError | IndexError | FileExistsError | FileNotFoundError
  | LibraryError string

section \<open>Parameter grids\<close>

text \<open>
  A module-level name used as a value stands for the expression last assigned to it; the
  scripts assign each of the names concerned exactly once, before its use.
\<close>

definition resolve :: "stmt list \<Rightarrow> expr \<Rightarrow> expr" where
  "resolve prog e =
     (case e of
        Name x \<Rightarrow> (case module_values x prog of [] \<Rightarrow> e | v # vs \<Rightarrow> last (v # vs))
      | _ \<Rightarrow> e)"

text \<open>The elements of a list display, \<open>None\<close> for any other expression.\<close>

definition list_elements :: "stmt list \<Rightarrow> expr \<Rightarrow> expr list option" where
  "list_elements prog e = (case resolve prog e of ListE es \<Rightarrow> Some es | _ \<Rightarrow> None)"

text \<open>Python's \<open>len\<close> of a module-level list; \<open>None\<close> when the name is not bound to one.\<close>

definition len :: "stmt list \<Rightarrow> string \<Rightarrow> nat option" where
  "len prog x = map_option length (list_elements prog (Name x))"

text \<open>
  One grid: parameter names with their lists of options, as written in a dict display
  \<open>{'k': [...], ...}\<close> or a call \<open>dict(k=[...], ...)\<close>.
\<close>

type_synonym grid = "(string \<times> expr list) list"

fun dict_items :: "expr \<Rightarrow> (string \<times> expr) list option" where
  "dict_items (DictE kvs) =
     (if list_all (\<lambda>kv. case fst kv of Str _ \<Rightarrow> True | _ \<Rightarrow> False) kvs
      then Some (map (\<lambda>kv. (case fst kv of Str k \<Rightarrow> k | _ \<Rightarrow> [], snd kv)) kvs)
      else None)"
| "dict_items (Call (Name f) [] kws) = (if f = ''dict'' then Some kws else None)"
| "dict_items _ = None"

definition grid_of :: "stmt list \<Rightarrow> expr \<Rightarrow> grid option" where
  "grid_of prog e =
     (case dict_items (resolve prog e) of
        None \<Rightarrow> None
      | Some items \<Rightarrow>
          those (map (\<lambda>kv. map_option (Pair (fst kv)) (list_elements prog (snd kv))) items))"

text \<open>
  The \<open>param_grid\<close> argument of a grid search: one dict, or a list of dicts
  (the library wraps a single dict into a one-element list).
\<close>

definition param_grids :: "stmt list \<Rightarrow> expr \<Rightarrow> grid list option" where
  "param_grids prog e =
     (case resolve prog e of
        ListE ds \<Rightarrow> those (map (grid_of prog) ds)
      | d \<Rightarrow> map_option (\<lambda>g. [g]) (grid_of prog d))"

text \<open>
  The library's \<open>ParameterGrid\<close>: for each grid the Cartesian product of the option
  lists, the first parameter varying slowest; the grids one after the other. The library
  iterates the parameters in alphabetical order of their names, which permutes each
  product and leaves the candidates and their number as they are.
\<close>

fun product :: "grid \<Rightarrow> (string \<times> expr) list list" where
  "product [] = [[]]"
| "product ((k, vs) # rest) = concat (map (\<lambda>v. map (\<lambda>c. (k, v) # c) (product rest)) vs)"

definition ParameterGrid :: "grid list \<Rightarrow> (string \<times> expr) list list" where
  "ParameterGrid grids = concat (map product grids)"

text \<open>The grids of the \<open>k\<close>-th \<open>GridSearchCV\<close> construction of a script.\<close>

definition grid_search_grids :: "stmt list \<Rightarrow> nat \<Rightarrow> grid list" where
  "grid_search_grids prog k =
     (let args = keyword_arguments ''GridSearchCV'' ''param_grid'' prog in
      if k < length args
      then (case args ! k of
              Some e \<Rightarrow> (case param_grids prog e of Some gs \<Rightarrow> gs | None \<Rightarrow> [])
            | None \<Rightarrow> [])
      else [])"

definition n_candidates :: "stmt list \<Rightarrow> nat \<Rightarrow> nat" where
  "n_candidates prog k = length (ParameterGrid (grid_search_grids prog k))"

text \<open>How many options each parameter of each grid has.\<close>

definition option_counts :: "grid list \<Rightarrow> (string \<times> nat) list list" where
  "option_counts grids = map (map (\<lambda>kv. (fst kv, length (snd kv)))) grids"

subsection \<open>The fitting message\<close>

text \<open>
  With \<open>verbose > 0\<close> the grid search prints
  \<^verbatim>\<open>Fitting {0} folds for each of {1} candidates, totalling {2} fits\<close>
  filled with the number of folds, the number of candidates and their product.
\<close>

fun show_nat :: "nat \<Rightarrow> string" where
  "show_nat n =
     (if n < 10 then [char_of (48 + n)] else show_nat (n div 10) @ [char_of (48 + n mod 10)])"

declare show_nat.simps [simp del]

definition fit_message :: "nat \<Rightarrow> nat \<Rightarrow> string" where
  "fit_message n_splits n_cand =
     ''Fitting '' @ show_nat n_splits @ '' folds for each of '' @ show_nat n_cand
       @ '' candidates, totalling '' @ show_nat (n_cand * n_splits) @ '' fits''"

text \<open>
  First line of the output block of the page of \<open>plot_feature_stacker\<close>
  (\<open>src/unnamed/part_000\<close>, line 28).
\<close>

definition feature_stacker_output_line1 :: string where
  "feature_stacker_output_line1 =
     ''Fitting 3 folds for each of 18 candidates, totalling 54 fits''"

section \<open>Reshaping the scores in \<open>plot_compare_reduction\<close>\<close>

text \<open>
  \<^verbatim>\<open>
  mean_scores = np.array(grid.cv_results_['mean_test_score'])
  # scores are in the order of param_grid iteration, which is alphabetical
  mean_scores = mean_scores.reshape(len(C_OPTIONS), -1, len(N_FEATURES_OPTIONS))
  # select score for best C
  mean_scores = mean_scores.max(axis=0)
  ...
  for i, (label, reducer_scores) in enumerate(zip(reducer_labels, mean_scores)):
      plt.bar(bar_offsets + i, reducer_scores, label=label, color=COLORS[i])
  \<close>
  A one-dimensional array is a list, in C order. The grid search returns one mean test
  score per candidate.
\<close>

text \<open>\<open>blocks k n xs\<close>: the first \<open>k\<close> consecutive pieces of length \<open>n\<close> of \<open>xs\<close>.\<close>

primrec blocks :: "nat \<Rightarrow> nat \<Rightarrow> 'a list \<Rightarrow> 'a list list" where
  "blocks 0 n xs = []"
| "blocks (Suc k) n xs = take n xs # blocks k n (drop n xs)"

text \<open>
  \<open>a.reshape(d0, -1, d2)\<close>: the missing dimension is inferred as
  \<open>size / (d0 * d2)\<close>; numpy raises \<open>ValueError\<close> when the known dimensions do not
  divide the size (or their product is zero).
\<close>

definition inferred_dim :: "nat \<Rightarrow> nat \<Rightarrow> nat \<Rightarrow> nat option" where
  "inferred_dim sz d0 d2 =
     (if d0 * d2 = 0 \<or> sz mod (d0 * d2) \<noteq> 0 then None else Some (sz div (d0 * d2)))"

definition reshape3 :: "'a list \<Rightarrow> nat \<Rightarrow> nat \<Rightarrow> py_error + 'a list list list" where
  "reshape3 xs d0 d2 =
     (case inferred_dim (length xs) d0 d2 of
        None \<Rightarrow> Inl ValueError
      | Some d1 \<Rightarrow> Inr (map (blocks d1 d2) (blocks d0 (d1 * d2) xs)))"

text \<open>
  \<open>a.max(axis=0)\<close> of a three-dimensional array: the elementwise maximum of its
  planes. numpy raises \<open>ValueError\<close> on an empty axis.
\<close>

definition max_axis0 :: "('a::linorder) list list list \<Rightarrow> py_error + 'a list list" where
  "max_axis0 a =
     (case a of
        [] \<Rightarrow> Inl ValueError
      | p # ps \<Rightarrow> Inr (fold (\<lambda>q acc. map2 (map2 max) acc q) ps p))"

text \<open>
  The three statements on the scores, up to the pairs the loop runs over:
  \<open>enumerate(zip(reducer_labels, mean_scores))\<close>.
\<close>

definition label_rows ::
  "stmt list \<Rightarrow> ('a::linorder) list \<Rightarrow> py_error + (nat \<times> expr \<times> 'a list) list" where
  "label_rows prog scores =
     (case (len prog ''C_OPTIONS'', len prog ''N_FEATURES_OPTIONS'',
            list_elements prog (Name ''reducer_labels'')) of
        (Some d0, Some d2, Some labels) \<Rightarrow>
          (case reshape3 scores d0 d2 of
             Inl e \<Rightarrow> Inl e
           | Inr cube \<Rightarrow>
               (case max_axis0 cube of
                  Inl e \<Rightarrow> Inl e
                | Inr rows \<Rightarrow> Inr (enumerate 0 (zip labels rows))))
      | _ \<Rightarrow> Inl (LibraryError ''TypeError''))"

section \<open>The imputation example: \<open>get_results\<close>\<close>

subsection \<open>The random state\<close>

text \<open>
  \<open>rng = np.random.RandomState(0)\<close> is a module-level object; \<open>get_results\<close> draws
  from it. The generator's algorithm is the library's. The model keeps what matters to
  the script: a random state is a sequence of raw outputs \<open>gen\<close> and the number \<open>pos\<close>
  of outputs consumed so far. Nothing is assumed about \<open>gen\<close>, so what is proved holds
  for every sequence the generator can produce.
\<close>

record rng_state =
  gen :: "nat \<Rightarrow> nat"
  pos :: nat

definition next_raw :: "rng_state \<Rightarrow> nat \<times> rng_state" where
  "next_raw r = (gen r (pos r), r\<lparr>pos := Suc (pos r)\<rparr>)"

text \<open>
  \<open>rng.shuffle(x)\<close> on a one-dimensional array, in place:
  \<^verbatim>\<open>
  for i in reversed(range(1, n)):
      j = random_interval(i)        # some j with 0 <= j <= i
      x[i], x[j] = x[j], x[i]
  \<close>
  \<open>shuffle_from i\<close> is the loop from index \<open>i\<close> downwards.
\<close>

primrec shuffle_from :: "nat \<Rightarrow> 'a list \<Rightarrow> rng_state \<Rightarrow> 'a list \<times> rng_state" where
  "shuffle_from 0 xs r = (xs, r)"
| "shuffle_from (Suc k) xs r =
     (case next_raw r of
        (v, r') \<Rightarrow>
          let i = Suc k; j = v mod (Suc i)
          in shuffle_from k (xs[i := xs ! j, j := xs ! i]) r')"

definition shuffle :: "'a list \<Rightarrow> rng_state \<Rightarrow> 'a list \<times> rng_state" where
  "shuffle xs r = shuffle_from (length xs - 1) xs r"

text \<open>
  \<open>rng.randint(low, high, n)\<close>: \<open>n\<close> integers from \<open>[low, high)\<close>;
  \<open>ValueError\<close> when \<open>low >= high\<close>.
\<close>

primrec raw_draws :: "nat \<Rightarrow> rng_state \<Rightarrow> nat list \<times> rng_state" where
  "raw_draws 0 r = ([], r)"
| "raw_draws (Suc n) r =
     (case next_raw r of
        (v, r') \<Rightarrow> (case raw_draws n r' of (vs, r'') \<Rightarrow> (v # vs, r'')))"

definition randint :: "int \<Rightarrow> int \<Rightarrow> nat \<Rightarrow> rng_state \<Rightarrow> py_error + int list \<times> rng_state" where
  "randint low high n r =
     (if low \<ge> high then Inl ValueError
      else case raw_draws n r of
             (vs, r') \<Rightarrow> Inr (map (\<lambda>v. low + int v mod (high - low)) vs, r'))"

subsection \<open>Arrays and the store\<close>

text \<open>
  A two-dimensional array carries its shape and its rows. Arrays are objects: variables
  hold references into a store, \<open>.copy()\<close> allocates a new object, an indexed assignment
  changes the object referred to.
\<close>

record 'a ndarray =
  shape0 :: nat
  shape1 :: nat
  rows :: "'a list list"

definition well_shaped :: "'a ndarray \<Rightarrow> bool" where
  "well_shaped a \<longleftrightarrow>
     length (rows a) = shape0 a \<and> list_all (\<lambda>r. length r = shape1 a) (rows a)"

datatype 'a obj = Array2 "'a ndarray" | Array1 "'a list"

type_synonym ref = nat
type_synonym 'a store = "'a obj list"

definition alloc :: "'a store \<Rightarrow> 'a obj \<Rightarrow> ref \<times> 'a store" where
  "alloc h ob = (length h, h @ [ob])"

definition get2 :: "'a store \<Rightarrow> ref \<Rightarrow> py_error + 'a ndarray" where
  "get2 h p =
     (if p < length h
      then (case h ! p of Array2 a \<Rightarrow> Inr a | Array1 _ \<Rightarrow> Inl (LibraryError ''TypeError''))
      else Inl (LibraryError ''TypeError''))"

definition get1 :: "'a store \<Rightarrow> ref \<Rightarrow> py_error + 'a list" where
  "get1 h p =
     (if p < length h
      then (case h ! p of Array1 a \<Rightarrow> Inr a | Array2 _ \<Rightarrow> Inl (LibraryError ''TypeError''))
      else Inl (LibraryError ''TypeError''))"

text \<open>\<open>a.copy()\<close>\<close>

definition copy :: "'a store \<Rightarrow> ref \<Rightarrow> py_error + ref \<times> 'a store" where
  "copy h p = (if p < length h then Inr (alloc h (h ! p)) else Inl (LibraryError ''TypeError''))"

text \<open>\<open>np.where(mask)[0]\<close>: the positions of the true entries, ascending.\<close>

definition where_true :: "bool list \<Rightarrow> int list" where
  "where_true flags = map int (filter (\<lambda>i. flags ! i) [0..<length flags])"

text \<open>
  \<open>a[is, js] = v\<close> with two index arrays. The arrays are broadcast against each other
  (equal lengths, or one of length one), else \<open>IndexError\<close>. An index \<open>i\<close> of an axis
  of length \<open>n\<close> is valid for \<open>-n <= i < n\<close>, a negative one counting from the end,
  else \<open>IndexError\<close>.
\<close>

definition broadcast_pairs :: "int list \<Rightarrow> int list \<Rightarrow> (int \<times> int) list option" where
  "broadcast_pairs is js =
     (if length is = length js then Some (zip is js)
      else if length is = 1 then Some (map (\<lambda>j. (hd is, j)) js)
      else if length js = 1 then Some (map (\<lambda>i. (i, hd js)) is)
      else None)"

definition norm_index :: "nat \<Rightarrow> int \<Rightarrow> nat option" where
  "norm_index n i =
     (if 0 \<le> i \<and> i < int n then Some (nat i)
      else if - int n \<le> i \<and> i < 0 then Some (nat (i + int n))
      else None)"

definition norm_pair :: "'a ndarray \<Rightarrow> int \<times> int \<Rightarrow> (nat \<times> nat) option" where
  "norm_pair a ij =
     (case norm_index (shape0 a) (fst ij) of
        None \<Rightarrow> None
      | Some i \<Rightarrow> map_option (Pair i) (norm_index (shape1 a) (snd ij)))"

definition set_cell :: "'a \<Rightarrow> nat \<times> nat \<Rightarrow> 'a ndarray \<Rightarrow> 'a ndarray" where
  "set_cell v ij a = a\<lparr>rows := (rows a)[fst ij := (rows a ! fst ij)[snd ij := v]]\<rparr>"

definition assign_cells ::
  "'a ndarray \<Rightarrow> int list \<Rightarrow> int list \<Rightarrow> 'a \<Rightarrow> py_error + 'a ndarray" where
  "assign_cells a is js v =
     (case broadcast_pairs is js of
        None \<Rightarrow> Inl IndexError
      | Some ps \<Rightarrow>
          (case those (map (norm_pair a) ps) of
             None \<Rightarrow> Inl IndexError
           | Some cells \<Rightarrow> Inr (fold (set_cell v) cells a)))"

text \<open>The same assignment on the object a reference points to.\<close>

definition assign_at ::
  "'a store \<Rightarrow> ref \<Rightarrow> int list \<Rightarrow> int list \<Rightarrow> 'a \<Rightarrow> py_error + 'a store" where
  "assign_at h p is js v =
     (case get2 h p of
        Inl e \<Rightarrow> Inl e
      | Inr a \<Rightarrow>
          (case assign_cells a is js v of
             Inl e \<Rightarrow> Inl e
           | Inr a' \<Rightarrow> Inr (h[p := Array2 a'])))"

subsection \<open>The library calls\<close>

text \<open>
  The estimators the function constructs, as constructed:
  \<open>RandomForestRegressor(random_state=0, n_estimators=100)\<close> and
  \<open>make_pipeline(make_union(SimpleImputer(missing_values=0, strategy="mean"),
  MissingIndicator(missing_values=0)), RandomForestRegressor(...))\<close>.
\<close>

datatype estimator =
    RandomForestRegressor int nat
  | SimpleImputer int string
  | MissingIndicator int
  | make_union "estimator list"
  | make_pipeline "estimator list"

text \<open>
  \<open>cross_val_score\<close> and the statistics of its result are the library's. They are
  parameters of the model. \<open>cross_val_score\<close> maps an estimator and the contents of
  the two arrays it is given to an exception, or to scores together with the contents
  it leaves in the two arrays: the model does not assume that the library leaves its
  arguments alone. It sees no other object of the script.
\<close>

record ('a, 's, 'm) library =
  cross_val_score ::
    "estimator \<Rightarrow> 'a ndarray \<Rightarrow> 'a list \<Rightarrow> py_error + 's \<times> 'a ndarray \<times> 'a list"
  mean :: "'s \<Rightarrow> 'm"
  std :: "'s \<Rightarrow> 'm"

text \<open>
  The state \<open>get_results\<close> works on: the store, the module-level random state, and the
  record of the calls made to \<open>cross_val_score\<close> (estimator, contents of \<open>X\<close> and of
  \<open>y\<close> when called), oldest first.
\<close>

record 'a state =
  store :: "'a store"
  rng :: rng_state
  calls :: "(estimator \<times> 'a ndarray \<times> 'a list) list"

record dataset =
  data :: ref
  target :: ref

text \<open>
  A call \<open>cross_val_score(estimator, X, y, ...)\<close>: the library reads the two objects
  referred to, and the store afterwards holds what it left in them.
\<close>

definition score ::
  "('a, 's, 'm) library \<Rightarrow> estimator \<Rightarrow> ref \<Rightarrow> ref \<Rightarrow> 'a state \<Rightarrow> py_error + 's \<times> 'a state" where
  "score lib est X y st =
     (case get2 (store st) X of
        Inl e \<Rightarrow> Inl e
      | Inr xa \<Rightarrow>
          (case get1 (store st) y of
             Inl e \<Rightarrow> Inl e
           | Inr ya \<Rightarrow>
               (case cross_val_score lib est xa ya of
                  Inl e \<Rightarrow> Inl e
                | Inr (s, xa', ya') \<Rightarrow>
                    Inr (s, st\<lparr>store := (store st)[X := Array2 xa', y := Array1 ya'],
                              calls := calls st @ [(est, xa, ya)]\<rparr>))))"

subsection \<open>The function\<close>

text \<open>
  \<^verbatim>\<open>
  missing_rate = 0.75
  n_missing_samples = int(np.floor(n_samples * missing_rate))
  \<close>
  \<open>0.75\<close> is a binary fraction and the product is exact in double precision for every
  \<open>n_samples\<close> below \<open>2^51\<close>, so the real-number floor is the value computed.
\<close>

definition missing_rate :: real where
  "missing_rate = 0.75"

definition n_missing_samples :: "nat \<Rightarrow> nat" where
  "n_missing_samples n_samples = nat \<lfloor>real n_samples * missing_rate\<rfloor>"

text \<open>
  \<^verbatim>\<open>
  missing_samples = np.hstack((np.zeros(n_samples - n_missing_samples, dtype=np.bool),
                               np.ones(n_missing_samples, dtype=np.bool)))
  rng.shuffle(missing_samples)
  missing_features = rng.randint(0, n_features, n_missing_samples)
  \<close>
  \<open>np.zeros\<close> raises \<open>ValueError\<close> on a negative length.
\<close>

definition unshuffled_mask :: "nat \<Rightarrow> py_error + bool list" where
  "unshuffled_mask n_samples =
     (let d = int n_samples - int (n_missing_samples n_samples)
      in if d < 0 then Inl ValueError
         else Inr (replicate (nat d) False @ replicate (n_missing_samples n_samples) True))"

definition missing_values ::
  "nat \<Rightarrow> nat \<Rightarrow> rng_state \<Rightarrow> py_error + bool list \<times> int list \<times> rng_state" where
  "missing_values n_samples n_features r =
     (case unshuffled_mask n_samples of
        Inl e \<Rightarrow> Inl e
      | Inr flags \<Rightarrow>
          (case shuffle flags r of
             (missing_samples, r1) \<Rightarrow>
               (case randint 0 (int n_features) (n_missing_samples n_samples) r1 of
                  Inl e \<Rightarrow> Inl e
                | Inr (missing_features, r2) \<Rightarrow> Inr (missing_samples, missing_features, r2))))"

text \<open>
  The three statements that open both imputation blocks:
  \<^verbatim>\<open>
  X_missing = X_full.copy()
  X_missing[np.where(missing_samples)[0], missing_features] = 0
  y_missing = y_full.copy()
  \<close>
\<close>

definition corrupt ::
  "ref \<Rightarrow> ref \<Rightarrow> bool list \<Rightarrow> int list \<Rightarrow> ('a::zero) store \<Rightarrow> py_error + (ref \<times> ref) \<times> 'a store" where
  "corrupt X_full y_full missing_samples missing_features h =
     (case copy h X_full of
        Inl e \<Rightarrow> Inl e
      | Inr (X_missing, h1) \<Rightarrow>
          (case assign_at h1 X_missing (where_true missing_samples) missing_features 0 of
             Inl e \<Rightarrow> Inl e
           | Inr h2 \<Rightarrow>
               (case copy h2 y_full of
                  Inl e \<Rightarrow> Inl e
                | Inr (y_missing, h3) \<Rightarrow> Inr ((X_missing, y_missing), h3))))"

definition forest :: estimator where
  "forest = RandomForestRegressor 0 100"

definition imputing_forest :: estimator where
  "imputing_forest =
     make_pipeline [make_union [SimpleImputer 0 ''mean'', MissingIndicator 0], forest]"

text \<open>One imputation block: corrupt fresh copies, then score them with an estimator.\<close>

definition impute_block ::
  "('a::zero, 's, 'm) library \<Rightarrow> estimator \<Rightarrow> ref \<Rightarrow> ref \<Rightarrow> bool list \<Rightarrow> int list \<Rightarrow>
     'a state \<Rightarrow> py_error + 's \<times> 'a state" where
  "impute_block lib est X_full y_full missing_samples missing_features st =
     (case corrupt X_full y_full missing_samples missing_features (store st) of
        Inl e \<Rightarrow> Inl e
      | Inr ((X_missing, y_missing), h) \<Rightarrow> score lib est X_missing y_missing (st\<lparr>store := h\<rparr>))"

definition get_results ::
  "('a::zero, 's, 'm) library \<Rightarrow> dataset \<Rightarrow> 'a state \<Rightarrow>
     py_error + (('m \<times> 'm) \<times> ('m \<times> 'm) \<times> ('m \<times> 'm)) \<times> 'a state" where
  "get_results lib dataset st =
     (let X_full = data dataset; y_full = target dataset in
      case get2 (store st) X_full of
        Inl e \<Rightarrow> Inl e
      | Inr xa \<Rightarrow>
          let n_samples = shape0 xa; n_features = shape1 xa in
          (case score lib forest X_full y_full st of
             Inl e \<Rightarrow> Inl e
           | Inr (full_scores, st1) \<Rightarrow>
               (case missing_values n_samples n_features (rng st1) of
                  Inl e \<Rightarrow> Inl e
                | Inr (missing_samples, missing_features, r) \<Rightarrow>
                    (case impute_block lib forest X_full y_full missing_samples
                            missing_features (st1\<lparr>rng := r\<rparr>) of
                       Inl e \<Rightarrow> Inl e
                     | Inr (zero_impute_scores, st2) \<Rightarrow>
                         (case impute_block lib imputing_forest X_full y_full missing_samples
                                 missing_features st2 of
                            Inl e \<Rightarrow> Inl e
                          | Inr (mean_impute_scores, st3) \<Rightarrow>
                              Inr (((mean lib full_scores, std lib full_scores),
                                    (mean lib zero_impute_scores, std lib zero_impute_scores),
                                    (mean lib mean_impute_scores, std lib mean_impute_scores)),
                                   st3))))))"

section \<open>The cache directory of \<open>plot_compare_reduction\<close>\<close>

text \<open>
  \<^verbatim>\<open>
  # Create a temporary folder to store the transformers of the pipeline
  cachedir = mkdtemp()
  memory = Memory(cachedir=cachedir, verbose=10)
  cached_pipe = Pipeline([('reduce_dim', PCA()),
                          ('classify', LinearSVC())],
                         memory=memory)

  # This time, a cached pipeline will be used within the grid search
  grid = GridSearchCV(cached_pipe, cv=3, n_jobs=1, param_grid=param_grid)
  digits = load_digits()
  grid.fit(digits.data, digits.target)

  # Delete the temporary cache before exiting
  rmtree(cachedir)
  \<close>
  A file system is the set of the paths that exist; a path is its list of components,
  the root being the empty list. In a well-formed file system the root exists and every
  other path has its parent.
\<close>

type_synonym path = "string list"
type_synonym filesystem = "path set"

definition well_formed :: "filesystem \<Rightarrow> bool" where
  "well_formed fs \<longleftrightarrow> [] \<in> fs \<and> (\<forall>p\<in>fs. p \<noteq> [] \<longrightarrow> butlast p \<in> fs)"

text \<open>
  \<open>mkdtemp()\<close> tries candidate names in turn and creates the first that does not
  exist; \<open>FileExistsError\<close> when all exist, \<open>FileNotFoundError\<close> when the parent
  directory is missing. The candidates are the library's choice.
\<close>

fun mkdtemp :: "path list \<Rightarrow> filesystem \<Rightarrow> py_error + path \<times> filesystem" where
  "mkdtemp [] fs = Inl FileExistsError"
| "mkdtemp (c # cs) fs =
     (if c \<in> fs then mkdtemp cs fs
      else if butlast c \<notin> fs then Inl FileNotFoundError
      else Inr (c, insert c fs))"

text \<open>
  The pipeline's \<open>memory\<close> stores what it caches below \<open>cachedir\<close>: an entry is a path
  relative to \<open>cachedir\<close>, created together with the directories leading to it. Which
  entries a fit stores is the library's choice.
\<close>

definition store_under :: "path \<Rightarrow> path \<Rightarrow> filesystem \<Rightarrow> filesystem" where
  "store_under dir entry fs = fs \<union> set (map (\<lambda>k. dir @ take k entry) [1..<Suc (length entry)])"

text \<open>\<open>rmtree(d)\<close> removes \<open>d\<close> and all below it; \<open>FileNotFoundError\<close> when \<open>d\<close> is missing.\<close>

definition rmtree :: "path \<Rightarrow> filesystem \<Rightarrow> py_error + filesystem" where
  "rmtree d fs = (if d \<notin> fs then Inl FileNotFoundError else Inr (Set.filter (\<lambda>p. \<not> prefix d p) fs))"

text \<open>
  The section, from \<open>mkdtemp()\<close> to \<open>rmtree(cachedir)\<close>. \<open>fit_error\<close> is the exception
  \<open>grid.fit\<close> raises, if any. The result is the exception that ends the section, if any,
  and the file system it leaves.
\<close>

definition caching_section ::
  "path list \<Rightarrow> path list \<Rightarrow> py_error option \<Rightarrow> filesystem \<Rightarrow> py_error option \<times> filesystem" where
  "caching_section candidates entries fit_error fs =
     (case mkdtemp candidates fs of
        Inl e \<Rightarrow> (Some e, fs)
      | Inr (cachedir, fs1) \<Rightarrow>
          let fs2 = fold (store_under cachedir) entries fs1 in
          (case fit_error of
             Some e \<Rightarrow> (Some e, fs2)
           | None \<Rightarrow>
               (case rmtree cachedir fs2 of
                  Inl e \<Rightarrow> (Some e, fs2)
                | Inr fs3 \<Rightarrow> (None, fs3))))"

text \<open>
  What a script can create files with: the packages of the standard library that write
  to the file system, and the library calls that save to a file.
\<close>

definition filesystem_packages :: "string list" where
  "filesystem_packages =
     [''tempfile'', ''shutil'', ''os'', ''io'', ''pathlib'', ''pickle'', ''joblib'']"

definition writer_names :: "string list" where
  "writer_names =
     [''open'', ''savefig'', ''save'', ''savez'', ''savetxt'', ''dump'', ''to_csv'',
      ''mkdir'', ''makedirs'', ''Memory'']"

fun called_attribute :: "expr \<Rightarrow> string list" where
  "called_attribute (Call (Attribute _ a) _ _) = [a]"
| "called_attribute (Call (Name f) _ _) = [f]"
| "called_attribute _ = []"

definition touches_filesystem :: "stmt list \<Rightarrow> bool" where
  "touches_filesystem prog \<longleftrightarrow>
     list_ex (\<lambda>m. List.member filesystem_packages (top_package m)) (imported_modules prog)
     \<or> list_ex (\<lambda>f. List.member writer_names f) (concat (map called_attribute (all_exprs prog)))"

text \<open>
  The top-level statements of a script that call a name imported from one of these
  packages, or construct a \<open>Memory\<close>.
\<close>

definition filesystem_statements :: "stmt list \<Rightarrow> stmt list" where
  "filesystem_statements prog =
     filter (\<lambda>st. list_ex (\<lambda>f. List.member writer_names f
                   \<or> (case map_of (imports_of prog) f of
                        Some m \<Rightarrow> List.member filesystem_packages (top_package m)
                      | None \<Rightarrow> False))
               (concat (map callee_name (all_exprs [st])))) prog"

chapter \<open>Properties\<close>

section \<open>The grid of \<open>plot_feature_stacker\<close> and its documented output\<close>

text \<open>
  Claim C1: the grid of \<open>plot_feature_stacker\<close> has 3 options for
  \<open>features__pca__n_components\<close>, 2 for \<open>features__univ_select__k\<close> and 3 for
  \<open>svm__C\<close>, hence 3 * 2 * 3 = 18 candidates; with 3 folds that is 54 fits; and the
  message the grid search prints for 3 folds and this grid is, character for character,
  the first line of the output documented on the page. The script passes no \<open>cv\<close>
  argument: the 3 folds are the default of the documented release.
\<close>

theorem C1_fitting_line_matches_grid:
  "option_counts (grid_search_grids plot_feature_stacker 0) =
     [[(''features__pca__n_components'', 3), (''features__univ_select__k'', 2), (''svm__C'', 3)]]
   \<and> n_candidates plot_feature_stacker 0 = 3 * 2 * 3
   \<and> n_candidates plot_feature_stacker 0 = 18
   \<and> 3 * n_candidates plot_feature_stacker 0 = 54
   \<and> keyword_arguments ''GridSearchCV'' ''cv'' plot_feature_stacker = [None]
   \<and> fit_message 3 (n_candidates plot_feature_stacker 0) = feature_stacker_output_line1"
  by code_simp

section \<open>What the scripts contain\<close>

text \<open>
  Claim C2, as stated: every example script is a straight-line program, with no
  conditional branching, no error handling and no function or class of its own.
  The imputation example is not: it defines the function \<open>get_results\<close>.
\<close>

theorem C2_imputation_not_straight_line:
  "\<not> straight_line plot_missing_values"
  by code_simp

text \<open>
  Claim C2, amended: no script has a conditional statement or expression, a \<open>while\<close>
  loop, an exception handler, a class or a lambda; four scripts define no function; the
  Gaussian-process iso-probability example defines \<open>g\<close> and the imputation example
  defines \<open>get_results\<close>, each called twice.
\<close>

theorem C2_scripts_flat_but_two_define_functions:
  "list_all no_branching scripts
   \<and> list_all no_error_handling scripts
   \<and> map defined_classes scripts = [[], [], [], [], [], []]
   \<and> list_all (\<lambda>s. \<not> list_ex is_lambda (all_exprs s)) scripts
   \<and> map defined_functions scripts = [[], [], [], [''g''], [], [''get_results'']]
   \<and> count_list (concat (map callee_name (all_exprs plot_gpc_isoprobability))) ''g'' = 2
   \<and> count_list (concat (map callee_name (all_exprs plot_missing_values))) ''get_results'' = 2"
  by code_simp

section \<open>Exceptions reach the top level\<close>

lemma faults_snoc:
  "faults E (tr @ [st]) = faults E tr @ (case fails E (length tr) st of None \<Rightarrow> [] | Some e \<Rightarrow> [e])"
  by (simp add: faults_def enumerate_append_eq List.map_filter_def split: option.splits)

lemma step_propagates:
  "faults E tr = [] \<Longrightarrow> propagates E (step E st tr)"
  by (simp add: step_def propagates_def faults_snoc split: option.splits)

lemma handler_free_Cons:
  "handler_free (st # sts) \<longleftrightarrow> handler_free [st] \<and> handler_free sts"
  by (auto simp: handler_free_def all_stmts_def)

lemma handler_free_body:
  "handler_free [For t it body] \<Longrightarrow> handler_free body"
  "handler_free [While c body] \<Longrightarrow> handler_free body"
  "handler_free [IfStmt c a b] \<Longrightarrow> handler_free a \<and> handler_free b"
  by (auto simp: handler_free_def all_stmts_def)

lemma handler_free_excludes:
  "\<not> handler_free [Try body hs fin]" "\<not> handler_free [With c body]" "\<not> handler_free [Raise x]"
  by (auto simp: handler_free_def all_stmts_def)

lemma handler_free_member:
  "handler_free sts \<Longrightarrow> st \<in> set sts \<Longrightarrow> handler_free [st]"
  by (auto simp: handler_free_def all_stmts_def list_ex_iff)

lemma block_propagates:
  assumes "\<And>st tr. st \<in> set sts \<Longrightarrow> handler_free [st] \<Longrightarrow> faults E tr = []
             \<Longrightarrow> propagates E (exec E st tr)"
    and "handler_free sts" and "faults E tr = []"
  shows "propagates E (exec_block E sts tr)"
  using assms
proof (induction sts arbitrary: tr)
  case Nil
  then show ?case by (simp add: propagates_def)
next
  case (Cons st sts)
  from Cons.prems(2) have hf: "handler_free [st]" "handler_free sts"
    using handler_free_Cons[of st sts] by blast+
  obtain out tr1 where r: "exec E st tr = (out, tr1)" by (cases "exec E st tr")
  have p: "propagates E (out, tr1)"
    using Cons.prems(1)[of st tr] hf(1) Cons.prems(3) r by simp
  show ?case
  proof (cases out)
    case Normal
    with p have "faults E tr1 = []" by (simp add: propagates_def)
    then have "propagates E (exec_block E sts tr1)"
      using Cons.IH[of tr1] Cons.prems(1) hf(2) by simp
    with r Normal show ?thesis by simp
  next
    case (Raised e)
    with p r show ?thesis by simp
  qed
qed

lemma loop_propagates:
  assumes "\<And>tr. faults E tr = [] \<Longrightarrow> propagates E (g tr)" and "propagates E r"
  shows "propagates E
           (fold (\<lambda>_ r. case r of (Raised e, tr2) \<Rightarrow> (Raised e, tr2) | (Normal, tr2) \<Rightarrow> g tr2) ks r)"
  using assms(2)
proof (induction ks arbitrary: r)
  case Nil
  then show ?case by simp
next
  case (Cons k ks)
  obtain out tr where r: "r = (out, tr)" by (cases r)
  show ?case
  proof (cases out)
    case Normal
    with Cons.prems r have "faults E tr = []" by (simp add: propagates_def)
    then have "propagates E (g tr)" by (rule assms(1))
    then show ?thesis using Cons.IH r Normal by simp
  next
    case (Raised e)
    then show ?thesis using Cons.IH[of r] Cons.prems r by simp
  qed
qed

lemma then_propagates:
  assumes "propagates E (f tr)" and "\<And>tr'. faults E tr' = [] \<Longrightarrow> propagates E (g tr')"
  shows "propagates E (case f tr of (Raised e, tr1) \<Rightarrow> (Raised e, tr1) | (Normal, tr1) \<Rightarrow> g tr1)"
proof (cases "f tr")
  case (Pair out tr1)
  show ?thesis
  proof (cases out)
    case Normal
    with assms(1) Pair have "faults E tr1 = []" by (simp add: propagates_def)
    with assms(2) Pair Normal show ?thesis by simp
  next
    case (Raised e)
    with assms(1) Pair show ?thesis by simp
  qed
qed

lemma stmt_propagates:
  "handler_free [st] \<Longrightarrow> faults E tr = [] \<Longrightarrow> propagates E (exec E st tr)"
proof (induction st arbitrary: tr)
  case (For t it body)
  from For.prems(1) have hb: "handler_free body" by (rule handler_free_body)
  have body: "propagates E (exec_block E body tr')" if "faults E tr' = []" for tr'
    using For.IH hb that by (intro block_propagates) (auto dest: handler_free_member)
  have iter: "propagates E (case step E (For t it body) tr' of
        (Raised e, tr3) \<Rightarrow> (Raised e, tr3) | (Normal, tr3) \<Rightarrow> exec_block E body tr3)"
    if "faults E tr' = []" for tr'
    by (rule then_propagates[where f = "step E (For t it body)"])
       (simp_all add: step_propagates that body)
  have loop: "propagates E
      (fold (\<lambda>_ r. case r of (Raised e, tr2) \<Rightarrow> (Raised e, tr2)
                | (Normal, tr2) \<Rightarrow>
                    (case step E (For t it body) tr2 of
                       (Raised e, tr3) \<Rightarrow> (Raised e, tr3)
                     | (Normal, tr3) \<Rightarrow> exec_block E body tr3))
         ks (Normal, tr1))"
    if "faults E tr1 = []" for ks :: "nat list" and tr1
  proof (rule loop_propagates[where g = "\<lambda>tr2. case step E (For t it body) tr2 of
          (Raised e, tr3) \<Rightarrow> (Raised e, tr3) | (Normal, tr3) \<Rightarrow> exec_block E body tr3"])
    show "propagates E (Normal, tr1)" using that by (simp add: propagates_def)
  qed (rule iter)
  have "propagates E (case step E (For t it body) tr of
      (Raised e, tr1) \<Rightarrow> (Raised e, tr1)
    | (Normal, tr1) \<Rightarrow>
        fold (\<lambda>_ r. case r of (Raised e, tr2) \<Rightarrow> (Raised e, tr2)
                | (Normal, tr2) \<Rightarrow>
                    (case step E (For t it body) tr2 of
                       (Raised e, tr3) \<Rightarrow> (Raised e, tr3)
                     | (Normal, tr3) \<Rightarrow> exec_block E body tr3))
          [0..<iterations E (length tr) (For t it body)] (Normal, tr1))"
    by (rule then_propagates[where f = "step E (For t it body)"])
       (simp_all add: step_propagates For.prems(2) loop)
  then show ?case by simp
next
  case (While c body)
  from While.prems(1) have hb: "handler_free body" by (rule handler_free_body)
  have body: "propagates E (exec_block E body tr')" if "faults E tr' = []" for tr'
    using While.IH hb that by (intro block_propagates) (auto dest: handler_free_member)
  have iter: "propagates E (case exec_block E body tr' of
        (Raised e, tr3) \<Rightarrow> (Raised e, tr3) | (Normal, tr3) \<Rightarrow> step E (While c body) tr3)"
    if "faults E tr' = []" for tr'
    by (rule then_propagates[where f = "exec_block E body"])
       (simp_all add: step_propagates that body)
  have loop: "propagates E
      (fold (\<lambda>_ r. case r of (Raised e, tr2) \<Rightarrow> (Raised e, tr2)
                | (Normal, tr2) \<Rightarrow>
                    (case exec_block E body tr2 of
                       (Raised e, tr3) \<Rightarrow> (Raised e, tr3)
                     | (Normal, tr3) \<Rightarrow> step E (While c body) tr3))
         ks (Normal, tr1))"
    if "faults E tr1 = []" for ks :: "nat list" and tr1
  proof (rule loop_propagates[where g = "\<lambda>tr2. case exec_block E body tr2 of
          (Raised e, tr3) \<Rightarrow> (Raised e, tr3) | (Normal, tr3) \<Rightarrow> step E (While c body) tr3"])
    show "propagates E (Normal, tr1)" using that by (simp add: propagates_def)
  qed (rule iter)
  have "propagates E (case step E (While c body) tr of
      (Raised e, tr1) \<Rightarrow> (Raised e, tr1)
    | (Normal, tr1) \<Rightarrow>
        fold (\<lambda>_ r. case r of (Raised e, tr2) \<Rightarrow> (Raised e, tr2)
                | (Normal, tr2) \<Rightarrow>
                    (case exec_block E body tr2 of
                       (Raised e, tr3) \<Rightarrow> (Raised e, tr3)
                     | (Normal, tr3) \<Rightarrow> step E (While c body) tr3))
          [0..<iterations E (length tr) (While c body)] (Normal, tr1))"
    by (rule then_propagates[where f = "step E (While c body)"])
       (simp_all add: step_propagates While.prems(2) loop)
  then show ?case by simp
next
  case (IfStmt c a b)
  from IfStmt.prems(1) have hb: "handler_free a" "handler_free b"
    using handler_free_body(3) by blast+
  have pa: "propagates E (exec_block E a tr')" if "faults E tr' = []" for tr'
    using IfStmt.IH(1) hb(1) that by (intro block_propagates) (auto dest: handler_free_member)
  have pb: "propagates E (exec_block E b tr')" if "faults E tr' = []" for tr'
    using IfStmt.IH(2) hb(2) that by (intro block_propagates) (auto dest: handler_free_member)
  have "propagates E (case step E (IfStmt c a b) tr of
      (Raised e, tr1) \<Rightarrow> (Raised e, tr1)
    | (Normal, tr1) \<Rightarrow>
        if branch E (length tr) (IfStmt c a b) then exec_block E a tr1 else exec_block E b tr1)"
    by (rule then_propagates[where f = "step E (IfStmt c a b)"])
       (simp_all add: step_propagates IfStmt.prems(2) pa pb)
  then show ?case by simp
next
  case (With c body)
  then show ?case by (simp add: handler_free_excludes)
next
  case (Try body hs fin)
  then show ?case by (simp add: handler_free_excludes)
next
  case (Raise x)
  then show ?case by (simp add: handler_free_excludes)
qed (simp_all add: step_propagates)

lemma handler_free_propagates:
  "handler_free prog \<Longrightarrow> propagates E (exec_block E prog [])"
  by (rule block_propagates) (simp_all add: stmt_propagates faults_def List.map_filter_def)

text \<open>
  Claim C3: no script contains an exception handler (\<open>try\<close>, \<open>with\<close>), a retry loop
  (\<open>while\<close>) or a \<open>raise\<close> of its own, at any depth, function bodies included; and
  whatever the library does, a run of a script either ends normally with no exception
  raised at all, or ends with the exception of the statement executed last, the first
  and only one raised: the exception reaches the top level as it was raised, and
  nothing runs after it.
\<close>

theorem C3_library_errors_reach_top_level:
  "list_all (\<lambda>s. \<not> list_ex is_handler (all_stmts s)) scripts
   \<and> list_all (\<lambda>s. \<not> list_ex is_while (all_stmts s)) scripts
   \<and> list_all (\<lambda>s. \<not> list_ex is_raise (all_stmts s)) scripts
   \<and> list_all (\<lambda>s. propagates E (exec_block E s [])) scripts"
proof -
  have a: "list_all (\<lambda>s. \<not> list_ex is_handler (all_stmts s)) scripts" by code_simp
  have b: "list_all (\<lambda>s. \<not> list_ex is_while (all_stmts s)) scripts" by code_simp
  have c: "list_all (\<lambda>s. \<not> list_ex is_raise (all_stmts s)) scripts" by code_simp
  from a c have "list_all handler_free scripts"
    by (simp add: list_all_iff handler_free_def)
  then have "list_all (\<lambda>s. propagates E (exec_block E s [])) scripts"
    by (simp add: list_all_iff handler_free_propagates)
  with a b c show ?thesis by blast
qed

text \<open>
  An instance: when \<open>load_iris()\<close>, the seventh statement of \<open>plot_feature_stacker\<close>,
  raises, the run of the script ends there with that exception.
\<close>

lemma load_iris_failure_ends_feature_stacker:
  "exec_block
     \<lparr>fails = (\<lambda>t st. if t = 6 then Some ''OSError'' else None), iterations = (\<lambda>t st. 1),
      branch = (\<lambda>t st. True), catches = (\<lambda>h e. True), swallows = (\<lambda>t st. False)\<rparr>
     plot_feature_stacker []
   = (Raised ''OSError'', take 7 plot_feature_stacker)"
  by code_simp

section \<open>The cache directory\<close>

lemma mkdtemp_fresh:
  "mkdtemp cs fs = Inr (d, fs1) \<Longrightarrow> d \<notin> fs \<and> fs1 = insert d fs"
  by (induction cs) (auto split: if_splits)

lemma well_formed_prefix:
  assumes "well_formed fs"
  shows "d @ s \<in> fs \<Longrightarrow> d \<in> fs"
proof (induction s rule: rev_induct)
  case Nil
  then show ?case by simp
next
  case (snoc x s)
  from assms snoc.prems have "butlast (d @ s @ [x]) \<in> fs"
    unfolding well_formed_def by (metis append_is_Nil_conv append_assoc not_Cons_self2)
  then have "d @ s \<in> fs" by (simp add: butlast_append)
  then show ?case by (rule snoc.IH)
qed

lemma fresh_has_nothing_below:
  assumes "well_formed fs" and "d \<notin> fs" and "p \<in> fs"
  shows "\<not> prefix d p"
proof
  assume "prefix d p"
  then obtain s where "p = d @ s" by (auto simp: prefix_def)
  with assms(3) have "d @ s \<in> fs" by simp
  with well_formed_prefix[OF assms(1)] have "d \<in> fs" by blast
  with assms(2) show False by simp
qed

lemma store_under_below:
  "p \<in> store_under d e fs \<Longrightarrow> p \<in> fs \<or> prefix d p"
  by (auto simp: store_under_def)

lemma fold_store_under_below:
  "p \<in> fold (store_under d) es fs \<Longrightarrow> p \<in> fs \<or> prefix d p"
proof (induction es arbitrary: fs)
  case Nil
  then show ?case by simp
next
  case (Cons e es)
  then have "p \<in> store_under d e fs \<or> prefix d p" by simp
  then show ?case using store_under_below by blast
qed

lemma fold_store_under_keeps:
  "p \<in> fs \<Longrightarrow> p \<in> fold (store_under d) es fs"
  by (induction es arbitrary: fs) (auto simp: store_under_def)

lemma caching_section_restores:
  assumes wf: "well_formed fs"
    and run: "caching_section candidates entries fit_error fs = (None, fs')"
  shows "fs' = fs"
proof -
  from run obtain d fs1 where mk: "mkdtemp candidates fs = Inr (d, fs1)"
    by (auto simp: caching_section_def split: sum.splits)
  then have fresh: "d \<notin> fs" and fs1: "fs1 = insert d fs"
    using mkdtemp_fresh by blast+
  define fs2 where "fs2 = fold (store_under d) entries fs1"
  from run mk have rm: "rmtree d fs2 = Inr fs'"
    by (auto simp: caching_section_def fs2_def Let_def split: option.splits sum.splits)
  then have fs': "fs' = Set.filter (\<lambda>p. \<not> prefix d p) fs2"
    by (auto simp: rmtree_def split: if_splits)
  show ?thesis
  proof (rule set_eqI)
    fix p
    show "p \<in> fs' \<longleftrightarrow> p \<in> fs"
    proof
      assume "p \<in> fs'"
      then have "p \<in> fs2" and np: "\<not> prefix d p" by (auto simp: fs')
      then have "p \<in> fs1 \<or> prefix d p"
        unfolding fs2_def by (blast dest: fold_store_under_below)
      with np have "p \<in> insert d fs" by (simp add: fs1)
      with np show "p \<in> fs" by auto
    next
      assume p: "p \<in> fs"
      then have "p \<in> fs2" unfolding fs2_def fs1
        by (intro fold_store_under_keeps) simp
      moreover have "\<not> prefix d p" by (rule fresh_has_nothing_below[OF wf fresh p])
      ultimately show "p \<in> fs'" by (simp add: fs')
    qed
  qed
qed

text \<open>
  Claim C4: when the caching section of \<open>plot_compare_reduction\<close> completes normally,
  the file system is what it was before \<open>mkdtemp()\<close>: the directory and every cache
  entry below it are gone. The section is the only place where any script touches the
  file system: \<open>cachedir\<close> is bound once, to \<open>mkdtemp()\<close>, handed to \<open>Memory\<close>, which
  the second pipeline takes as its \<open>memory\<close>, and removed by \<open>rmtree(cachedir)\<close>; no
  other script imports a file-system package or calls a function that saves to a file.
\<close>

theorem C4_cache_directory_is_removed:
  assumes "well_formed fs"
    and "caching_section candidates entries fit_error fs = (None, fs')"
  shows "fs' = fs
    \<and> map touches_filesystem scripts = [False, True, False, False, False, False]
    \<and> filesystem_statements plot_compare_reduction =
        [Assign (Name ''cachedir'') (Call (Name ''mkdtemp'') [] []),
         Assign (Name ''memory'')
           (Call (Name ''Memory'') [] [(''cachedir'', Name ''cachedir''), (''verbose'', Num ''10'')]),
         ExprStmt (Call (Name ''rmtree'') [Name ''cachedir''] [])]
    \<and> module_values ''cachedir'' plot_compare_reduction = [Call (Name ''mkdtemp'') [] []]
    \<and> keyword_arguments ''Pipeline'' ''memory'' plot_compare_reduction = [None, Some (Name ''memory'')]"
proof -
  have a: "fs' = fs" using assms by (rule caching_section_restores)
  have b: "map touches_filesystem scripts = [False, True, False, False, False, False]"
    by code_simp
  have c: "filesystem_statements plot_compare_reduction =
        [Assign (Name ''cachedir'') (Call (Name ''mkdtemp'') [] []),
         Assign (Name ''memory'')
           (Call (Name ''Memory'') [] [(''cachedir'', Name ''cachedir''), (''verbose'', Num ''10'')]),
         ExprStmt (Call (Name ''rmtree'') [Name ''cachedir''] [])]"
    by code_simp
  have d: "module_values ''cachedir'' plot_compare_reduction = [Call (Name ''mkdtemp'') [] []]"
    by code_simp
  have e: "keyword_arguments ''Pipeline'' ''memory'' plot_compare_reduction
      = [None, Some (Name ''memory'')]"
    by code_simp
  from a b c d e show ?thesis by blast
qed

theorem C4_cache_directory_is_removed_witness:
  "well_formed {[], [''tmp''], [''tmp'', ''tmpa''], [''home'']}
   \<and> caching_section [[''tmp'', ''tmpa''], [''tmp'', ''tmpb'']]
        [[''joblib'', ''sklearn'', ''pipeline'', ''_fit_transform_one'', ''0c50'']] None
        {[], [''tmp''], [''tmp'', ''tmpa''], [''home'']}
       = (None, {[], [''tmp''], [''tmp'', ''tmpa''], [''home'']})"
proof -
  let ?fs = "{[], [''tmp''], [''tmp'', ''tmpa''], [''home'']} :: filesystem"
  let ?cs = "[[''tmp'', ''tmpa''], [''tmp'', ''tmpb'']]"
  let ?es = "[[''joblib'', ''sklearn'', ''pipeline'', ''_fit_transform_one'', ''0c50'']]"
  have wf: "well_formed ?fs" by (simp add: well_formed_def)
  have "fst (caching_section ?cs ?es None ?fs) = None" by code_simp
  then have run: "caching_section ?cs ?es None ?fs = (None, snd (caching_section ?cs ?es None ?fs))"
    by (metis prod.collapse)
  from C4_cache_directory_is_removed[OF wf run] have "snd (caching_section ?cs ?es None ?fs) = ?fs"
    by blast
  with wf run show ?thesis by simp
qed

section \<open>Shared state, imports, parallelism\<close>

text \<open>
  Claim C5, as stated: in no script does a function read or change a module-level
  object. In the imputation example \<open>get_results\<close> uses the module-level \<open>rng\<close>.
\<close>

theorem C5_get_results_uses_module_rng:
  "globals_in_functions plot_missing_values \<noteq> []"
  by code_simp

text \<open>
  Claim C5, amended: the only module-level variable any function of any script uses is
  \<open>rng\<close> in \<open>get_results\<close> of the imputation example. It is bound once, at module level,
  to \<open>np.random.RandomState(0)\<close>; the function calls its \<open>shuffle\<close> and \<open>randint\<close>,
  which advance it; no statement outside the function calls a method of it.
\<close>

theorem C5_only_rng_is_shared:
  "map globals_in_functions scripts = [[], [], [], [], [], [(''get_results'', ''rng'')]]
   \<and> module_values ''rng'' plot_missing_values =
       [Call (Attribute (Attribute (Name ''np'') ''random'') ''RandomState'') [Num ''0''] []]
   \<and> methods_called_on ''rng'' get_results_body = [''shuffle'', ''randint'']
   \<and> methods_called_on ''rng'' plot_missing_values = [''shuffle'', ''randint'']"
  by code_simp

text \<open>
  Claim C6: every import of every script names a module of \<open>sklearn\<close>, \<open>numpy\<close>,
  \<open>matplotlib\<close>, \<open>tempfile\<close>, \<open>shutil\<close> or \<open>__future__\<close>, and none a script of the
  repository; every use of PCA, NMF, SVC, LinearSVC, OPTICS, GaussianProcessClassifier,
  GridSearchCV and cross_val_score is of the name imported from \<open>sklearn\<close>; no script
  binds one of these names itself; and the only callables that are not imported and not
  built in are \<open>g\<close> and \<open>get_results\<close>.
\<close>

theorem C6_computations_are_library_calls:
  "list_all (\<lambda>s. list_all (\<lambda>m. List.member external_packages (top_package m)) (imported_modules s))
     scripts
   \<and> list_all (\<lambda>s. \<not> list_ex (\<lambda>m. List.member script_names (top_package m)) (imported_modules s))
       scripts
   \<and> list_all (\<lambda>s. list_all from_sklearn (algorithm_sources s)) scripts
   \<and> map (\<lambda>s. map fst (algorithm_sources s)) scripts =
       [[''PCA'', ''SVC'', ''GridSearchCV''],
        [''NMF'', ''PCA'', ''LinearSVC'', ''GridSearchCV''],
        [''OPTICS''],
        [''GaussianProcessClassifier''],
        [''GaussianProcessClassifier''],
        [''cross_val_score'']]
   \<and> list_all (\<lambda>s. \<not> list_ex (\<lambda>x. List.member algorithm_names x)
                       (defined_functions s @ defined_classes s @ module_variables s)) scripts
   \<and> map own_callables scripts = [[], [], [], [''g''], [], [''get_results'']]"
  by code_simp

text \<open>
  Claim C7: the scripts that run a grid search are \<open>plot_feature_stacker\<close>, whose one
  \<open>GridSearchCV\<close> construction passes no \<open>n_jobs\<close>, and \<open>plot_compare_reduction\<close>, whose
  two constructions pass \<open>n_jobs=1\<close>; these are the only \<open>n_jobs\<close> arguments anywhere;
  and no script imports or names anything that creates a thread, a process or a worker
  pool.
\<close>

theorem C7_parallelism_is_a_parameter:
  "map (keyword_arguments ''GridSearchCV'' ''n_jobs'') scripts =
     [[None], [Some (Num ''1''), Some (Num ''1'')], [], [], [], []]
   \<and> map n_jobs_arguments scripts = [[], [Num ''1'', Num ''1''], [], [], [], []]
   \<and> list_all no_own_concurrency scripts"
  by code_simp

section \<open>Reshaping the scores\<close>

lemma length_blocks: "length (blocks k n xs) = k"
  by (induction k arbitrary: xs) auto

lemma blocks_lengths:
  "k * n \<le> length xs \<Longrightarrow> list_all (\<lambda>b. length b = n) (blocks k n xs)"
  by (induction k arbitrary: xs) auto

lemma fold_map2_length:
  "list_all (\<lambda>q. length q = n) ps \<Longrightarrow> length p = n
     \<Longrightarrow> length (fold (\<lambda>q acc. map2 f acc q) ps p) = n"
  by (induction ps arbitrary: p) auto

lemma compare_reduction_grid_facts:
  "n_candidates plot_compare_reduction 0 = 36"
  "len plot_compare_reduction ''C_OPTIONS'' = Some 4"
  "len plot_compare_reduction ''N_FEATURES_OPTIONS'' = Some 3"
  "list_elements plot_compare_reduction (Name ''reducer_labels'')
     = Some [Str ''PCA'', Str ''NMF'', Str ''KBest(chi2)'']"
  by code_simp+

lemma length3: "length xs = 3 \<Longrightarrow> xs = [xs ! 0, xs ! 1, xs ! 2]"
  by (cases xs; cases "tl xs"; cases "tl (tl xs)"; auto)

lemma reshape3_shape:
  assumes "inferred_dim (length xs) d0 d2 = Some d1"
  shows "\<exists>cube. reshape3 xs d0 d2 = Inr cube \<and> length cube = d0
           \<and> list_all (\<lambda>p. length p = d1 \<and> list_all (\<lambda>r. length r = d2) p) cube"
proof -
  from assms have pos: "d0 * d2 \<noteq> 0" and dv: "length xs mod (d0 * d2) = 0"
    and d1: "d1 = length xs div (d0 * d2)"
    by (auto simp: inferred_dim_def split: if_splits)
  have sz: "d0 * (d1 * d2) = length xs"
    using dv d1 by (metis mult.assoc mult.left_commute mult.commute mult_div_mod_eq add.right_neutral)
  have planes: "list_all (\<lambda>b. length b = d1 * d2) (blocks d0 (d1 * d2) xs)"
    by (rule blocks_lengths) (simp add: sz)
  have "list_all (\<lambda>p. length p = d1 \<and> list_all (\<lambda>r. length r = d2) p)
          (map (blocks d1 d2) (blocks d0 (d1 * d2) xs))"
    using planes by (auto simp: list_all_iff length_blocks intro!: blocks_lengths[unfolded list_all_iff, rule_format])
  then show ?thesis
    using assms by (simp add: reshape3_def length_blocks)
qed

lemma max_axis0_shape:
  assumes "cube \<noteq> []" and "list_all (\<lambda>p. length p = d1) cube"
  shows "\<exists>rows. max_axis0 cube = Inr rows \<and> length rows = d1"
proof (cases cube)
  case Nil with assms show ?thesis by simp
next
  case (Cons p ps)
  with assms have "list_all (\<lambda>q. length q = d1) ps" "length p = d1" by auto
  then have "length (fold (\<lambda>q acc. map2 (map2 max) acc q) ps p) = d1"
    by (rule fold_map2_length)
  with Cons show ?thesis by (simp add: max_axis0_def)
qed

text \<open>
  Claim C8: the grids of \<open>plot_compare_reduction\<close> give 2 * 3 * 4 + 1 * 3 * 4 = 36
  candidates. For any 36 scores, the reshape to
  \<open>(len(C_OPTIONS), -1, len(N_FEATURES_OPTIONS)) = (4, -1, 3)\<close> succeeds and infers 3,
  the number of reducer labels; the maximum over axis 0 has 3 rows; and the loop runs
  over exactly three pairs, one per label and row, none dropped.
\<close>

theorem C8_reshape_is_exact:
  fixes scores :: "('a::linorder) list"
  assumes "length scores = n_candidates plot_compare_reduction 0"
  shows "n_candidates plot_compare_reduction 0 = 2 * 3 * 4 + 1 * 3 * 4
    \<and> len plot_compare_reduction ''C_OPTIONS'' = Some 4
    \<and> len plot_compare_reduction ''N_FEATURES_OPTIONS'' = Some 3
    \<and> len plot_compare_reduction ''reducer_labels'' = Some 3
    \<and> inferred_dim (length scores) 4 3 = Some 3
    \<and> (\<exists>cube rows.
          reshape3 scores 4 3 = Inr cube
          \<and> length cube = 4 \<and> list_all (\<lambda>p. length p = 3) cube
          \<and> max_axis0 cube = Inr rows \<and> length rows = 3
          \<and> label_rows plot_compare_reduction scores =
               Inr [(0, Str ''PCA'', rows ! 0), (1, Str ''NMF'', rows ! 1),
                    (2, Str ''KBest(chi2)'', rows ! 2)])"
proof -
  note f = compare_reduction_grid_facts
  have n: "length scores = 36" using assms by (simp add: f)
  have lr: "len plot_compare_reduction ''reducer_labels'' = Some 3"
    by (simp add: len_def f)
  have inf: "inferred_dim (length scores) 4 3 = Some 3"
    by (simp add: inferred_dim_def n)
  from reshape3_shape[OF inf] obtain cube where
    cube: "reshape3 scores 4 3 = Inr cube" "length cube = 4"
      "list_all (\<lambda>p. length p = 3 \<and> list_all (\<lambda>r. length r = 3) p) cube"
    by blast
  then have c3: "list_all (\<lambda>p. length p = 3) cube" by (simp add: list_all_iff)
  have "cube \<noteq> []" using cube(2) by auto
  from max_axis0_shape[OF this c3] obtain rows where
    rows: "max_axis0 cube = Inr rows" "length rows = 3" by blast
  have r3: "rows = [rows ! 0, rows ! 1, rows ! 2]" by (rule length3[OF rows(2)])
  have "enumerate 0 (zip [Str ''PCA'', Str ''NMF'', Str ''KBest(chi2)''] rows) =
      [(0, Str ''PCA'', rows ! 0), (1, Str ''NMF'', rows ! 1), (2, Str ''KBest(chi2)'', rows ! 2)]"
    by (subst r3) simp
  then have lab: "label_rows plot_compare_reduction scores =
      Inr [(0, Str ''PCA'', rows ! 0), (1, Str ''NMF'', rows ! 1), (2, Str ''KBest(chi2)'', rows ! 2)]"
    by (simp add: label_rows_def f cube rows)
  show ?thesis
    using f(1,2,3) lr inf cube(1,2) c3 rows lab by auto
qed

theorem C8_reshape_is_exact_witness:
  "length (map int [0..<36]) = n_candidates plot_compare_reduction 0
   \<and> label_rows plot_compare_reduction (map int [0..<36]) =
       Inr [(0, Str ''PCA'', [27, 28, 29]), (1, Str ''NMF'', [30, 31, 32]),
            (2, Str ''KBest(chi2)'', [33, 34, 35])]"
proof -
  have h: "length (map int [0..<36]) = n_candidates plot_compare_reduction 0"
    by (simp add: compare_reduction_grid_facts)
  have "label_rows plot_compare_reduction (map int [0..<36]) =
       Inr [(0, Str ''PCA'', [27, 28, 29]), (1, Str ''NMF'', [30, 31, 32]),
            (2, Str ''KBest(chi2)'', [33, 34, 35])]"
    by code_simp
  with h C8_reshape_is_exact[OF h] show ?thesis by simp
qed

section \<open>Injecting the missing values\<close>

lemma n_missing_samples_eq: "n_missing_samples n = 3 * n div 4"
proof -
  have "real n * 0.75 = real (3 * n) / real 4" by simp
  then have "\<lfloor>real n * 0.75\<rfloor> = int (3 * n div 4)"
    by (simp only: floor_divide_of_nat_eq)
  then show ?thesis by (simp add: n_missing_samples_def missing_rate_def)
qed

lemma n_missing_samples_le: "n_missing_samples n \<le> n"
  by (simp add: n_missing_samples_eq)

lemma unshuffled_mask_eq:
  "unshuffled_mask n =
     Inr (replicate (n - n_missing_samples n) False @ replicate (n_missing_samples n) True)"
  using n_missing_samples_le[of n]
  by (simp add: unshuffled_mask_def Let_def nat_diff_distrib' of_nat_diff)

lemma shuffle_from_props:
  "i < length xs \<Longrightarrow>
     mset (fst (shuffle_from i xs r)) = mset xs
     \<and> gen (snd (shuffle_from i xs r)) = gen r
     \<and> pos (snd (shuffle_from i xs r)) = pos r + i"
proof (induction i arbitrary: xs r)
  case 0
  then show ?case by simp
next
  case (Suc k)
  let ?j = "gen r (pos r) mod Suc (Suc k)"
  let ?xs = "xs[Suc k := xs ! ?j, ?j := xs ! Suc k]"
  let ?r = "r\<lparr>pos := Suc (pos r)\<rparr>"
  have j: "?j < length xs" using Suc.prems
    by (meson less_Suc_eq_le mod_less_divisor order_le_less_trans zero_less_Suc Suc_leI less_le_trans)
  have sw: "mset ?xs = mset xs" using Suc.prems j by (simp add: mset_swap)
  have "k < length ?xs" using Suc.prems by simp
  from Suc.IH[OF this, of ?r] sw
  show ?case by (simp add: next_raw_def Let_def)
qed

lemma shuffle_props:
  "mset (fst (shuffle xs r)) = mset xs
   \<and> gen (snd (shuffle xs r)) = gen r
   \<and> pos (snd (shuffle xs r)) = pos r + (length xs - 1)"
proof (cases xs)
  case Nil
  then show ?thesis by (simp add: shuffle_def)
next
  case (Cons x ys)
  then have "length xs - 1 < length xs" by simp
  from shuffle_from_props[OF this] show ?thesis by (simp add: shuffle_def)
qed

lemma raw_draws_props:
  "length (fst (raw_draws n r)) = n
   \<and> gen (snd (raw_draws n r)) = gen r
   \<and> pos (snd (raw_draws n r)) = pos r + n"
proof (induction n arbitrary: r)
  case 0
  then show ?case by simp
next
  case (Suc n)
  let ?r = "r\<lparr>pos := Suc (pos r)\<rparr>"
  obtain vs r'' where rd: "raw_draws n ?r = (vs, r'')" by (cases "raw_draws n ?r")
  with Suc.IH[of ?r] show ?case by (simp add: next_raw_def)
qed

lemma randint_props:
  assumes "low < high"
  shows "\<exists>vs r'. randint low high n r = Inr (vs, r') \<and> length vs = n
           \<and> list_all (\<lambda>v. low \<le> v \<and> v < high) vs
           \<and> gen r' = gen r \<and> pos r' = pos r + n"
proof -
  obtain raw r' where rd: "raw_draws n r = (raw, r')" by (cases "raw_draws n r")
  with raw_draws_props[of n r] have
    "length raw = n" "gen r' = gen r" "pos r' = pos r + n" by auto
  moreover have "low \<le> low + int v mod (high - low) \<and> low + int v mod (high - low) < high" for v
  proof -
    have "0 < high - low" using assms by simp
    then have "0 \<le> int v mod (high - low)" "int v mod (high - low) < high - low"
      by (simp_all only: pos_mod_sign pos_mod_bound)
    then show ?thesis by linarith
  qed
  then have "list_all (\<lambda>v. low \<le> v \<and> v < high) (map (\<lambda>v. low + int v mod (high - low)) raw)"
    by (simp add: list_all_iff)
  ultimately show ?thesis using assms rd by (simp add: randint_def)
qed

lemma where_true_length: "length (where_true ms) = count_list ms True"
proof -
  have "length (filter (\<lambda>i. ms ! i) [0..<length ms]) = length (filter id (map (nth ms) [0..<length ms]))"
    by (simp add: filter_map comp_def)
  also have "\<dots> = length (filter id ms)" by (simp add: map_nth)
  also have "\<dots> = count_list ms True"
    by (induction ms) auto
  finally show ?thesis by (simp add: where_true_def)
qed

lemma where_true_bounds:
  "list_all (\<lambda>i. 0 \<le> i \<and> i < int (length ms)) (where_true ms)"
  by (auto simp: where_true_def list_all_iff)

lemma count_list_mset: "count_list xs x = count (mset xs) x"
  by (induction xs) auto

lemma missing_values_props:
  assumes "1 \<le> n_features"
  shows "\<exists>ms mf r'. missing_values n_samples n_features r = Inr (ms, mf, r')
     \<and> length ms = n_samples
     \<and> count_list ms True = n_missing_samples n_samples
     \<and> length mf = n_missing_samples n_samples
     \<and> list_all (\<lambda>j. 0 \<le> j \<and> j < int n_features) mf
     \<and> gen r' = gen r
     \<and> pos r' = pos r + (n_samples - 1) + n_missing_samples n_samples"
proof -
  let ?nm = "n_missing_samples n_samples"
  let ?flags = "replicate (n_samples - ?nm) False @ replicate ?nm True"
  obtain ms r1 where sh: "shuffle ?flags r = (ms, r1)" by (cases "shuffle ?flags r")
  with shuffle_props[of ?flags r] have
    ms: "mset ms = mset ?flags" and r1: "gen r1 = gen r" "pos r1 = pos r + (length ?flags - 1)"
    by auto
  have len_flags: "length ?flags = n_samples"
    using n_missing_samples_le[of n_samples] by simp
  from ms have "length ms = length ?flags" by (rule mset_eq_length)
  then have len: "length ms = n_samples" using len_flags by simp
  have cnt: "count_list ms True = ?nm"
    by (simp add: count_list_mset ms count_mset)
  have "(0::int) < int n_features" using assms by simp
  from randint_props[OF this, of ?nm r1] obtain mf r2 where
    ri: "randint 0 (int n_features) ?nm r1 = Inr (mf, r2)" "length mf = ?nm"
      "list_all (\<lambda>v. 0 \<le> v \<and> v < int n_features) mf" "gen r2 = gen r1" "pos r2 = pos r1 + ?nm"
    by blast
  have "missing_values n_samples n_features r = Inr (ms, mf, r2)"
    by (simp add: missing_values_def unshuffled_mask_eq sh ri(1))
  with len cnt ri r1 len_flags show ?thesis by simp
qed

lemma those_map_Some:
  "(\<And>x. x \<in> set xs \<Longrightarrow> f x = Some (g x)) \<Longrightarrow> those (map f xs) = Some (map g xs)"
  by (induction xs) auto

lemma assign_cells_succeeds:
  assumes "length is = length js"
    and "list_all (\<lambda>i. 0 \<le> i \<and> i < int (shape0 a)) is"
    and "list_all (\<lambda>j. 0 \<le> j \<and> j < int (shape1 a)) js"
  shows "assign_cells a is js v =
     Inr (fold (set_cell v) (map (\<lambda>ij. (nat (fst ij), nat (snd ij))) (zip is js)) a)"
proof -
  have "norm_pair a ij = Some (nat (fst ij), nat (snd ij))" if "ij \<in> set (zip is js)" for ij
  proof -
    obtain i j where ij: "ij = (i, j)" by (cases ij)
    with that have "i \<in> set is" "j \<in> set js"
      by (auto dest: set_zip_leftD set_zip_rightD)
    then have "fst ij \<in> set is" "snd ij \<in> set js" by (simp_all add: ij)
    with assms(2,3) show ?thesis
      by (auto simp: norm_pair_def norm_index_def list_all_iff)
  qed
  then have "those (map (norm_pair a) (zip is js)) =
      Some (map (\<lambda>ij. (nat (fst ij), nat (snd ij))) (zip is js))"
    by (rule those_map_Some)
  then show ?thesis using assms(1) by (simp add: assign_cells_def broadcast_pairs_def)
qed

lemma set_cell_shape:
  "shape0 (set_cell v ij a) = shape0 a \<and> shape1 (set_cell v ij a) = shape1 a
   \<and> (well_shaped a \<longrightarrow> well_shaped (set_cell v ij a))"
proof (cases "fst ij < length (rows a)")
  case True
  have "length r = shape1 a"
    if ws: "\<forall>r\<in>set (rows a). length r = shape1 a"
      and r: "r \<in> set ((rows a)[fst ij := (rows a ! fst ij)[snd ij := v]])" for r
  proof -
    from r have "r = (rows a ! fst ij)[snd ij := v] \<or> r \<in> set (rows a)"
      by (auto dest: set_update_subset_insert[THEN subsetD])
    moreover have "rows a ! fst ij \<in> set (rows a)" using True by simp
    ultimately show ?thesis using ws by auto
  qed
  then show ?thesis by (auto simp: set_cell_def well_shaped_def list_all_iff)
next
  case False
  then have "(rows a)[fst ij := (rows a ! fst ij)[snd ij := v]] = rows a"
    by (simp add: list_update_beyond)
  then show ?thesis by (simp add: set_cell_def well_shaped_def)
qed

lemma fold_set_cell_shape:
  "shape0 (fold (set_cell v) cells a) = shape0 a \<and> shape1 (fold (set_cell v) cells a) = shape1 a
   \<and> (well_shaped a \<longrightarrow> well_shaped (fold (set_cell v) cells a))"
  by (induction cells arbitrary: a) (simp_all add: set_cell_shape)

text \<open>
  Claim C9: for a dataset with at least one sample and one feature, and whatever the
  random state returns: \<open>n_missing_samples\<close> is \<open>3 * n_samples div 4\<close> and at most
  \<open>n_samples\<close>; the statements that build \<open>missing_samples\<close> and
  \<open>missing_features\<close> raise nothing; \<open>missing_samples\<close> has length \<open>n_samples\<close>
  and exactly \<open>n_missing_samples\<close> true entries; \<open>missing_features\<close> has length
  \<open>n_missing_samples\<close> and entries in \<open>[0, n_features)\<close>; the two index arrays of
  the assignment have equal length and are in bounds; and the assignment succeeds and
  keeps the shape.
\<close>

theorem C9_missing_value_injection_well_formed:
  fixes a :: "('a::zero) ndarray"
  assumes "well_shaped a" and "1 \<le> shape0 a" and "1 \<le> shape1 a"
  shows "n_missing_samples (shape0 a) = 3 * shape0 a div 4
    \<and> n_missing_samples (shape0 a) \<le> shape0 a
    \<and> (\<exists>missing_samples missing_features r' a'.
          missing_values (shape0 a) (shape1 a) r = Inr (missing_samples, missing_features, r')
          \<and> length missing_samples = shape0 a
          \<and> count_list missing_samples True = n_missing_samples (shape0 a)
          \<and> length missing_features = n_missing_samples (shape0 a)
          \<and> list_all (\<lambda>j. 0 \<le> j \<and> j < int (shape1 a)) missing_features
          \<and> length (where_true missing_samples) = length missing_features
          \<and> list_all (\<lambda>i. 0 \<le> i \<and> i < int (shape0 a)) (where_true missing_samples)
          \<and> assign_cells a (where_true missing_samples) missing_features 0 = Inr a'
          \<and> well_shaped a' \<and> shape0 a' = shape0 a \<and> shape1 a' = shape1 a)"
proof -
  from missing_values_props[OF assms(3), of "shape0 a" r] obtain ms mf r' where
    mv: "missing_values (shape0 a) (shape1 a) r = Inr (ms, mf, r')"
    and ms: "length ms = shape0 a" "count_list ms True = n_missing_samples (shape0 a)"
    and mf: "length mf = n_missing_samples (shape0 a)"
      "list_all (\<lambda>j. 0 \<le> j \<and> j < int (shape1 a)) mf"
    by blast
  have eq: "length (where_true ms) = length mf"
    by (simp add: where_true_length ms mf)
  have bounds: "list_all (\<lambda>i. 0 \<le> i \<and> i < int (shape0 a)) (where_true ms)"
    using where_true_bounds[of ms] by (simp add: ms)
  let ?a' = "fold (set_cell 0) (map (\<lambda>ij. (nat (fst ij), nat (snd ij))) (zip (where_true ms) mf)) a"
  have asg: "assign_cells a (where_true ms) mf 0 = Inr ?a'"
    by (rule assign_cells_succeeds[OF eq bounds mf(2)])
  have shp: "well_shaped ?a'" "shape0 ?a' = shape0 a" "shape1 ?a' = shape1 a"
    using fold_set_cell_shape[of "0::'a" _ a] assms(1) by simp_all
  show ?thesis
    using mv ms mf eq bounds asg shp
    by (simp add: n_missing_samples_eq)
qed

theorem C9_missing_value_injection_well_formed_witness:
  "well_shaped \<lparr>shape0 = 4, shape1 = 2, rows = [[1, 2], [3, 4], [5, 6], [7, 8 :: int]]\<rparr>
   \<and> n_missing_samples 4 = 3
   \<and> (\<exists>r'. missing_values 4 2 \<lparr>gen = (\<lambda>i. 7 * i + 3), pos = 0\<rparr>
              = Inr ([False, True, True, True], [0, 1, 0], r'))
   \<and> assign_cells \<lparr>shape0 = 4, shape1 = 2, rows = [[1, 2], [3, 4], [5, 6], [7, 8 :: int]]\<rparr>
        (where_true [False, True, True, True]) [0, 1, 0] 0
      = Inr \<lparr>shape0 = 4, shape1 = 2, rows = [[1, 2], [0, 4], [5, 0], [0, 8]]\<rparr>"
proof -
  let ?a = "\<lparr>shape0 = 4, shape1 = 2, rows = [[1, 2], [3, 4], [5, 6], [7, 8 :: int]]\<rparr>"
  let ?r = "\<lparr>gen = (\<lambda>i. 7 * i + 3), pos = 0\<rparr>"
  have ws: "well_shaped ?a" by (simp add: well_shaped_def)
  have h: "1 \<le> shape0 ?a" "1 \<le> shape1 ?a" by simp_all
  from C9_missing_value_injection_well_formed[OF ws h, of ?r]
  obtain ms mf r' where mv: "missing_values 4 2 ?r = Inr (ms, mf, r')"
    and nm: "n_missing_samples 4 = 3" by auto
  have "map_sum id (\<lambda>t. (fst t, fst (snd t))) (missing_values 4 2 ?r)
      = Inr ([False, True, True, True], [0, 1, 0])"
    by code_simp
  with mv have "ms = [False, True, True, True]" "mf = [0, 1, 0]" by simp_all
  with mv have mv': "\<exists>r'. missing_values 4 2 ?r = Inr ([False, True, True, True], [0, 1, 0], r')"
    by blast
  have asg: "assign_cells ?a (where_true [False, True, True, True]) [0, 1, 0] 0
      = Inr \<lparr>shape0 = 4, shape1 = 2, rows = [[1, 2], [0, 4], [5, 0], [0, 8]]\<rparr>"
    by code_simp
  from ws nm mv' asg show ?thesis by blast
qed

section \<open>The two imputation measurements\<close>

lemma copy_props:
  "copy h p = Inr (q, h') \<Longrightarrow> p < length h \<and> q = length h \<and> h' = h @ [h ! p]"
  by (auto simp: copy_def alloc_def split: if_splits)

lemma get2_props: "get2 h p = Inr a \<longleftrightarrow> p < length h \<and> h ! p = Array2 a"
  by (auto simp: get2_def split: obj.splits)

lemma get1_props: "get1 h p = Inr a \<longleftrightarrow> p < length h \<and> h ! p = Array1 a"
  by (auto simp: get1_def split: obj.splits)

lemma corrupt_props:
  assumes run: "corrupt X y ms mf h = Inr ((Xm, ym), h')"
    and X: "get2 h X = Inr xa" and y: "get1 h y = Inr ya"
  shows "\<exists>xm. assign_cells xa (where_true ms) mf 0 = Inr xm
           \<and> Xm = length h \<and> ym = Suc (length h) \<and> h' = h @ [Array2 xm, Array1 ya]"
proof -
  from X y have Xp: "X < length h" "h ! X = Array2 xa" and yp: "y < length h" "h ! y = Array1 ya"
    by (simp_all add: get2_props get1_props)
  from run obtain h1 where c1: "copy h X = Inr (Xm, h1)"
    by (auto simp: corrupt_def split: sum.splits)
  then have Xm: "Xm = length h" and h1: "h1 = h @ [Array2 xa]"
    using copy_props[OF c1] Xp by simp_all
  from run c1 obtain h2 where a: "assign_at h1 Xm (where_true ms) mf 0 = Inr h2"
    by (auto simp: corrupt_def split: sum.splits)
  have g: "get2 h1 Xm = Inr xa" by (simp add: get2_props Xm h1)
  from a g obtain xm where xm: "assign_cells xa (where_true ms) mf 0 = Inr xm"
    and h2: "h2 = h1[Xm := Array2 xm]"
    by (auto simp: assign_at_def split: sum.splits)
  then have h2': "h2 = h @ [Array2 xm]" by (simp add: h1 Xm)
  from run c1 a have c2: "copy h2 y = Inr (ym, h')"
    by (auto simp: corrupt_def split: sum.splits)
  from copy_props[OF c2] yp have "ym = Suc (length h)" "h' = h @ [Array2 xm, Array1 ya]"
    by (simp_all add: h2' nth_append)
  with xm Xm show ?thesis by blast
qed

lemma score_props:
  assumes "score lib est X y st = Inr (s, st')"
    and "get2 (store st) X = Inr xa" and "get1 (store st) y = Inr ya"
  shows "\<exists>xa' ya'. cross_val_score lib est xa ya = Inr (s, xa', ya')
           \<and> st' = st\<lparr>store := (store st)[X := Array2 xa', y := Array1 ya'],
                        calls := calls st @ [(est, xa, ya)]\<rparr>"
  using assms by (auto simp: score_def split: sum.splits)

lemma impute_block_props:
  assumes run: "impute_block lib est X y ms mf st = Inr (s, st')"
    and X: "get2 (store st) X = Inr xa" and y: "get1 (store st) y = Inr ya"
  shows "\<exists>xm xm' ya'. assign_cells xa (where_true ms) mf 0 = Inr xm
           \<and> store st' = store st @ [Array2 xm', Array1 ya']
           \<and> calls st' = calls st @ [(est, xm, ya)]
           \<and> rng st' = rng st"
proof -
  from run obtain Xm ym h where c: "corrupt X y ms mf (store st) = Inr ((Xm, ym), h)"
    and sc: "score lib est Xm ym (st\<lparr>store := h\<rparr>) = Inr (s, st')"
    by (auto simp: impute_block_def split: sum.splits)
  from corrupt_props[OF c X y] obtain xm where
    xm: "assign_cells xa (where_true ms) mf 0 = Inr xm"
    and p: "Xm = length (store st)" "ym = Suc (length (store st))"
      "h = store st @ [Array2 xm, Array1 ya]"
    by blast
  have "get2 (store (st\<lparr>store := h\<rparr>)) Xm = Inr xm" "get1 (store (st\<lparr>store := h\<rparr>)) ym = Inr ya"
    by (simp_all add: get2_props get1_props p nth_append)
  from score_props[OF sc this] obtain xm' ya' where
    "st' = st\<lparr>store := h[Xm := Array2 xm', ym := Array1 ya'],
               calls := calls st @ [(est, xm, ya)]\<rparr>"
    by auto
  moreover have "h[Xm := Array2 xm', ym := Array1 ya'] = store st @ [Array2 xm', Array1 ya']"
    by (simp add: p list_update_append)
  ultimately show ?thesis using xm by auto
qed

text \<open>
  Claim C10: whenever \<open>get_results\<close> returns, it has called \<open>cross_val_score\<close>
  three times: on the full data, and twice on the same corrupted contents, once with
  the plain forest (zero imputation) and once with the imputing pipeline (mean
  imputation). The corrupted \<open>X\<close> is in both calls the result of the one assignment
  applied to the contents of \<open>X_full\<close>, with the \<open>missing_samples\<close> and
  \<open>missing_features\<close> drawn once; \<open>y\<close> is in both calls the contents of
  \<open>y_full\<close>. This holds even if \<open>cross_val_score\<close> changes the arrays it is given:
  the two blocks work on copies, so \<open>X_full\<close> and \<open>y_full\<close> are at the end what the
  first call, on the full data, left in them.
\<close>

theorem C10_both_imputations_scored_on_same_data:
  assumes run: "get_results lib dataset st = Inr (res, st')"
  shows "\<exists>X_full y_full full_scores X1 y1 missing_samples missing_features X_missing.
      get2 (store st) (data dataset) = Inr X_full
    \<and> get1 (store st) (target dataset) = Inr y_full
    \<and> cross_val_score lib forest X_full y_full = Inr (full_scores, X1, y1)
    \<and> missing_values (shape0 X_full) (shape1 X_full) (rng st)
         = Inr (missing_samples, missing_features, rng st')
    \<and> assign_cells X1 (where_true missing_samples) missing_features 0 = Inr X_missing
    \<and> calls st' = calls st @ [(forest, X_full, y_full), (forest, X_missing, y1),
                               (imputing_forest, X_missing, y1)]
    \<and> get2 (store st') (data dataset) = Inr X1
    \<and> get1 (store st') (target dataset) = Inr y1"
proof -
  from run obtain xa where X: "get2 (store st) (data dataset) = Inr xa"
    by (auto simp: get_results_def Let_def split: sum.splits)
  from run X obtain fs st1 where s1: "score lib forest (data dataset) (target dataset) st = Inr (fs, st1)"
    by (auto simp: get_results_def Let_def split: sum.splits)
  then obtain ya where y: "get1 (store st) (target dataset) = Inr ya"
    by (auto simp: score_def split: sum.splits)
  from score_props[OF s1 X y] obtain x1 y1 where
    lib1: "cross_val_score lib forest xa ya = Inr (fs, x1, y1)"
    and st1: "st1 = st\<lparr>store := (store st)[data dataset := Array2 x1, target dataset := Array1 y1],
                        calls := calls st @ [(forest, xa, ya)]\<rparr>"
    by blast
  from X y have neq: "data dataset \<noteq> target dataset"
    by (auto simp: get2_props get1_props)
  have X1: "get2 (store st1) (data dataset) = Inr x1" and y1: "get1 (store st1) (target dataset) = Inr y1"
    using X y neq by (simp_all add: st1 get2_props get1_props)
  from run X s1 obtain ms mf r where
    mv: "missing_values (shape0 xa) (shape1 xa) (rng st1) = Inr (ms, mf, r)"
    by (auto simp: get_results_def Let_def split: sum.splits)
  from run X s1 mv obtain zs st2 where
    b1: "impute_block lib forest (data dataset) (target dataset) ms mf (st1\<lparr>rng := r\<rparr>) = Inr (zs, st2)"
    by (auto simp: get_results_def Let_def split: sum.splits)
  from run X s1 mv b1 obtain mss where
    b2: "impute_block lib imputing_forest (data dataset) (target dataset) ms mf st2 = Inr (mss, st')"
    by (auto simp: get_results_def Let_def split: sum.splits)
  have X1': "get2 (store (st1\<lparr>rng := r\<rparr>)) (data dataset) = Inr x1"
    and y1': "get1 (store (st1\<lparr>rng := r\<rparr>)) (target dataset) = Inr y1"
    using X1 y1 by simp_all
  from impute_block_props[OF b1 X1' y1'] obtain xm xm1 ym1 where
    xm: "assign_cells x1 (where_true ms) mf 0 = Inr xm"
    and s2: "store st2 = store st1 @ [Array2 xm1, Array1 ym1]"
      "calls st2 = calls st @ [(forest, xa, ya), (forest, xm, y1)]" "rng st2 = r"
    by (auto simp: st1)
  have X2: "get2 (store st2) (data dataset) = Inr x1" and y2: "get1 (store st2) (target dataset) = Inr y1"
    using X1 y1 by (simp_all add: get2_props get1_props s2 nth_append)
  from impute_block_props[OF b2 X2 y2] obtain xm' xm2 ym2 where
    xm': "assign_cells x1 (where_true ms) mf 0 = Inr xm'"
    and s3: "store st' = store st2 @ [Array2 xm2, Array1 ym2]"
      "calls st' = calls st2 @ [(imputing_forest, xm', y1)]" "rng st' = rng st2"
    by blast
  from xm xm' have same: "xm' = xm" by simp
  have X3: "get2 (store st') (data dataset) = Inr x1" and y3: "get1 (store st') (target dataset) = Inr y1"
    using X2 y2 by (simp_all add: get2_props get1_props s3 nth_append)
  have mv': "missing_values (shape0 xa) (shape1 xa) (rng st) = Inr (ms, mf, rng st')"
    using mv by (simp add: st1 s3 s2)
  show ?thesis
    using X y lib1 mv' xm s2 s3 same X3 y3 by auto
qed

theorem C10_both_imputations_scored_on_same_data_witness:
  "\<exists>res st'.
     get_results
       \<lparr>cross_val_score = (\<lambda>e x y. Inr (length (rows x), x, map (\<lambda>v. v + 1) y)),
        mean = id, std = id\<rparr>
       \<lparr>data = 0, target = 1\<rparr>
       \<lparr>store = [Array2 \<lparr>shape0 = 4, shape1 = 2, rows = [[1, 2], [3, 4], [5, 6], [7, 8 :: int]]\<rparr>,
                 Array1 [10, 20, 30, 40]],
        rng = \<lparr>gen = (\<lambda>i. 7 * i + 3), pos = 0\<rparr>, calls = []\<rparr> = Inr (res, st')
     \<and> calls st' =
         [(forest, \<lparr>shape0 = 4, shape1 = 2, rows = [[1, 2], [3, 4], [5, 6], [7, 8]]\<rparr>,
             [10, 20, 30, 40]),
          (forest, \<lparr>shape0 = 4, shape1 = 2, rows = [[1, 2], [0, 4], [5, 0], [0, 8]]\<rparr>,
             [11, 21, 31, 41]),
          (imputing_forest, \<lparr>shape0 = 4, shape1 = 2, rows = [[1, 2], [0, 4], [5, 0], [0, 8]]\<rparr>,
             [11, 21, 31, 41])]"
proof -
  let ?lib = "\<lparr>cross_val_score = (\<lambda>e x y. Inr (length (rows x), x, map (\<lambda>v. v + 1) y)),
        mean = id, std = id\<rparr> :: (int, nat, nat) library"
  let ?X = "\<lparr>shape0 = 4, shape1 = 2, rows = [[1, 2], [3, 4], [5, 6], [7, 8 :: int]]\<rparr>"
  let ?Xm = "\<lparr>shape0 = 4, shape1 = 2, rows = [[1, 2], [0, 4], [5, 0], [0, 8 :: int]]\<rparr>"
  let ?r = "\<lparr>gen = (\<lambda>i. 7 * i + 3), pos = 0\<rparr>"
  let ?st = "\<lparr>store = [Array2 ?X, Array1 [10, 20, 30, 40]], rng = ?r, calls = []\<rparr>"
  let ?ds = "\<lparr>data = 0, target = 1\<rparr>"
  have ev: "map_sum id (\<lambda>t. pos (rng (snd t))) (get_results ?lib ?ds ?st) = Inr 6"
    by code_simp
  then obtain res st' where run: "get_results ?lib ?ds ?st = Inr (res, st')"
    by (cases "get_results ?lib ?ds ?st") auto
  from C10_both_imputations_scored_on_same_data[OF run]
  obtain ms mf xm where
    mv: "missing_values 4 2 ?r = Inr (ms, mf, rng st')"
    and xm: "assign_cells ?X (where_true ms) mf 0 = Inr xm"
    and c: "calls st' = [(forest, ?X, [10, 20, 30, 40]), (forest, xm, [11, 21, 31, 41]),
                         (imputing_forest, xm, [11, 21, 31, 41])]"
    by (auto simp: get2_props get1_props)
  have "map_sum id (\<lambda>t. (fst t, fst (snd t))) (missing_values 4 2 ?r)
      = Inr ([False, True, True, True], [0, 1, 0])"
    by code_simp
  with mv have "ms = [False, True, True, True]" "mf = [0, 1, 0]" by simp_all
  moreover have "assign_cells ?X (where_true [False, True, True, True]) [0, 1, 0] 0 = Inr ?Xm"
    by code_simp
  ultimately have "xm = ?Xm" using xm by simp
  with run c show ?thesis by blast
qed

end
